theory Spec2Isabelle
  imports Complex_Main "HOL-Library.Log_Nat"
begin

section \<open>Numbers, values and errors\<close>

text \<open>
  The pricing model of elfpy exists twice: over Python floats (\<open>PricingModel\<close>) and over
  the \<open>FixedPoint\<close> type (\<open>PricingModelFP\<close>). A number of either kind is a finite value
  or one of the special values infinity and not-a-number. The time stretch is computed
  in the arithmetic of the machine: binary64 with its rounding for the floats, whole
  units of \<open>10^-18\<close> for the fixed point. The curve formulas (spot price, APR, bond
  reserves) are stated in exact arithmetic, with finite values as reals: there the
  rounding of binary64 and of the 30-digit \<open>Decimal\<close> context is left out, the
  exceptional branches (division by zero, invalid power, failed assertion) are kept.
\<close>

datatype number = Finite real | PosInf | NegInf | NotANumber

text \<open>A Python value that reaches the assertions: a float or a \<open>FixedPoint\<close>.\<close>

datatype pyvalue = PyFloat number | PyFixedPoint number

datatype error =
    AssertionError string
  | ZeroDivisionError
  | ComplexResult
  | DecimalDivisionByZero
  | DecimalInvalidOperation
  | FixedPointDivisionByZero
  | NotImplementedError
  | InvalidCheckpointTime

datatype TokenType = BASE | PT

record Quantity =
  amount :: pyvalue
  unit :: TokenType

record MarketState =
  share_reserves :: real
  bond_reserves :: real
  lp_total_supply :: real
  share_price :: real
  init_share_price :: real
  curve_fee_multiple :: real
  flat_fee_multiple :: real
  base_buffer :: real
  bond_buffer :: real

record StretchedTime =
  days :: real
  time_stretch :: real
  normalizing_constant :: real

text \<open>
  Modelled from the spec: \<open>elfpy.time.norm_days\<close> is not among the sources. It is the
  spec's \<open>days_remaining / normalizing_constant\<close> with the constant passed in.
\<close>

definition norm_days :: "real \<Rightarrow> real \<Rightarrow> real" where
  "norm_days d c = d / c"

text \<open>
  Modelled from the spec: the derived values of \<open>elfpy.time.StretchedTime\<close> are not among
  the sources. The spec gives \<open>normalized_time = days_remaining / normalizing_constant\<close>.
\<close>

definition normalized_time :: "StretchedTime \<Rightarrow> real" where
  "normalized_time tr = norm_days (days tr) (normalizing_constant tr)"

text \<open>
  Modelled from the spec: likewise, \<open>stretched_time = normalized_time / time_stretch\<close>.
\<close>

definition stretched_time :: "StretchedTime \<Rightarrow> real" where
  "stretched_time tr = normalized_time tr / time_stretch tr"

text \<open>The value of a number that is finite, and the number's comparisons with a real
  as IEEE 754 and \<open>FixedPoint\<close> make them: every comparison with not-a-number is false.\<close>

fun isfinite :: "number \<Rightarrow> bool" where
  "isfinite (Finite x) = True"
| "isfinite PosInf = False"
| "isfinite NegInf = False"
| "isfinite NotANumber = False"

fun number_ge :: "number \<Rightarrow> real \<Rightarrow> bool" where
  "number_ge (Finite x) c = (c \<le> x)"
| "number_ge PosInf c = True"
| "number_ge NegInf c = False"
| "number_ge NotANumber c = False"

fun number_of :: "pyvalue \<Rightarrow> number" where
  "number_of (PyFloat n) = n"
| "number_of (PyFixedPoint n) = n"

fun is_float :: "pyvalue \<Rightarrow> bool" where
  "is_float (PyFloat n) = True"
| "is_float (PyFixedPoint n) = False"

fun is_fixedpoint :: "pyvalue \<Rightarrow> bool" where
  "is_fixedpoint (PyFloat n) = False"
| "is_fixedpoint (PyFixedPoint n) = True"

section \<open>Binary64 and fixed-point arithmetic\<close>

text \<open>
  A Python float is an IEEE 754 binary64 number: a product or quotient of two floats is
  the exact result rounded to the nearest float, ties to the even significand. The
  rounding works on the magnitude: the binade of \<open>a > 0\<close> is the \<open>e\<close> with
  \<open>2^e \<le> a < 2^(e+1)\<close>, found from the bit length of the integer part of \<open>a\<close> or of
  \<open>1 / a\<close>; the exponent is the binade, but at least \<open>-1022\<close> (below it the floats are
  subnormal); the spacing of the floats around \<open>a\<close> is \<open>2^(exponent - 52)\<close>.
\<close>

definition round_half_even :: "real \<Rightarrow> int" where
  "round_half_even y =
     (let f = \<lfloor>y\<rfloor>; d = y - of_int f
      in if d < 1 / 2 then f else if 1 / 2 < d then f + 1 else if even f then f else f + 1)"

definition binade :: "real \<Rightarrow> int" where
  "binade a =
     (if 1 \<le> a then bitlen \<lfloor>a\<rfloor> - 1
      else let l = bitlen \<lfloor>1 / a\<rfloor> in if a * 2 powi (l - 1) = 1 then 1 - l else - l)"

definition exponent_of :: "real \<Rightarrow> int" where
  "exponent_of a = max (binade a) (- 1022)"

definition ulp_of :: "real \<Rightarrow> real" where
  "ulp_of a = 2 powi (exponent_of a - 52)"

definition round_magnitude :: "real \<Rightarrow> real" where
  "round_magnitude a = of_int (round_half_even (a / ulp_of a)) * ulp_of a"

text \<open>The float nearest to a real: a magnitude that rounds to \<open>2^1024\<close> or more
  overflows to an infinity.\<close>

definition round_double :: "real \<Rightarrow> number" where
  "round_double x =
     (if x = 0 then Finite 0
      else let r = round_magnitude \<bar>x\<bar>
           in if 2 powi 1024 \<le> r then (if 0 < x then PosInf else NegInf)
              else Finite (if 0 < x then r else - r))"

text \<open>A real is a float when rounding leaves it as it is.\<close>

definition is_double :: "real \<Rightarrow> bool" where
  "is_double x = (round_double x = Finite x)"

text \<open>The order of two numbers, false whenever one of them is not-a-number.\<close>

fun number_le :: "number \<Rightarrow> number \<Rightarrow> bool" where
  "number_le (Finite x) (Finite y) = (x \<le> y)"
| "number_le (Finite x) PosInf = True"
| "number_le PosInf PosInf = True"
| "number_le NegInf (Finite y) = True"
| "number_le NegInf NegInf = True"
| "number_le NegInf PosInf = True"
| "number_le x y = False"

text \<open>Python's \<open>*\<close> on floats.\<close>

fun float_mul :: "number \<Rightarrow> number \<Rightarrow> number" where
  "float_mul (Finite a) (Finite b) = round_double (a * b)"
| "float_mul NotANumber y = NotANumber"
| "float_mul x NotANumber = NotANumber"
| "float_mul PosInf (Finite b) = (if b = 0 then NotANumber else if 0 < b then PosInf else NegInf)"
| "float_mul NegInf (Finite b) = (if b = 0 then NotANumber else if 0 < b then NegInf else PosInf)"
| "float_mul (Finite a) PosInf = (if a = 0 then NotANumber else if 0 < a then PosInf else NegInf)"
| "float_mul (Finite a) NegInf = (if a = 0 then NotANumber else if 0 < a then NegInf else PosInf)"
| "float_mul PosInf PosInf = PosInf"
| "float_mul PosInf NegInf = NegInf"
| "float_mul NegInf PosInf = NegInf"
| "float_mul NegInf NegInf = PosInf"

text \<open>Python's \<open>/\<close> on floats: a zero divisor raises \<open>ZeroDivisionError\<close>, whatever
  the dividend; a quotient too large for a float is an infinity.\<close>

fun float_div :: "number \<Rightarrow> number \<Rightarrow> error + number" where
  "float_div x (Finite b) =
     (if b = 0 then Inl ZeroDivisionError
      else case x of
        Finite a \<Rightarrow> Inr (round_double (a / b))
      | NotANumber \<Rightarrow> Inr NotANumber
      | PosInf \<Rightarrow> Inr (if 0 < b then PosInf else NegInf)
      | NegInf \<Rightarrow> Inr (if 0 < b then NegInf else PosInf))"
| "float_div NotANumber y = Inr NotANumber"
| "float_div x NotANumber = Inr NotANumber"
| "float_div (Finite a) y = Inr (Finite 0)"
| "float_div x y = Inr NotANumber"

text \<open>
  Modelled from the spec: the \<open>FixedPoint\<close> type of \<open>elfpy.utils.math\<close> is not among the
  sources. The spec's numeric kernel is a fixed-point decimal type with deterministic
  rounding: a value is a whole number of units of \<open>10^-18\<close>, here that whole number, and
  a product is rounded down to a whole number of units.
\<close>

definition fixedpoint_mul :: "int \<Rightarrow> int \<Rightarrow> int" where
  "fixedpoint_mul a b = (a * b) div 10 ^ 18"

text \<open>
  Modelled from the spec: likewise the quotient of two \<open>FixedPoint\<close> values, rounded
  down to a whole number of units; a zero divisor raises the type's division-by-zero
  error.
\<close>

definition fixedpoint_div :: "int \<Rightarrow> int \<Rightarrow> error + int" where
  "fixedpoint_div a b = (if b = 0 then Inl FixedPointDivisionByZero else Inr ((a * 10 ^ 18) div b))"

section \<open>Time stretch\<close>

text \<open>
  \<open>PricingModel.calc_time_stretch\<close>: \<open>3.09396 / (0.02789 * (apr * 100))\<close> in float
  arithmetic. The two literals are the floats nearest to the decimals written.
\<close>

definition calc_time_stretch :: "number \<Rightarrow> error + number" where
  "calc_time_stretch apr =
     (let apr_percent = float_mul apr (Finite 100)
      in float_div (round_double (309396 / 100000))
           (float_mul (round_double (2789 / 100000)) apr_percent))"

text \<open>
  \<open>PricingModelFP.calc_time_stretch\<close>: the same expression over \<open>FixedPoint\<close>, with
  \<open>FixedPoint("100.0")\<close>, \<open>FixedPoint("3.09396")\<close> and \<open>FixedPoint("0.02789")\<close> as
  their numbers of units.
\<close>

definition calc_time_stretch_fp :: "int \<Rightarrow> error + int" where
  "calc_time_stretch_fp apr =
     (let apr_percent = fixedpoint_mul apr (100 * 10 ^ 18)
      in fixedpoint_div 3093960000000000000 (fixedpoint_mul 27890000000000000 apr_percent))"

text \<open>
  The floats nearest to \<open>0.02789\<close> and \<open>3.09396\<close>, the divisor
  \<open>0.02789 * (apr * 100)\<close> of a finite positive \<open>apr\<close> that does not overflow, and
  the two floats just below one, \<open>1 - 2^-52\<close> and \<open>1 - 2^-53\<close>.
\<close>

definition double_0_02789 :: real where
  "double_0_02789 = 8038745190871241 / 2 ^ 58"

definition double_3_09396 :: real where
  "double_3_09396 = 6966978551549610 / 2 ^ 51"

definition stretch_divisor :: "real \<Rightarrow> real" where
  "stretch_divisor a = round_magnitude (double_0_02789 * round_magnitude (a * 100))"

definition below_one_lo :: real where
  "below_one_lo = 4503599627370495 / 4503599627370496"

definition below_one_hi :: real where
  "below_one_hi = 9007199254740991 / 9007199254740992"

section \<open>Trade results and the extreme trades\<close>

text \<open>
  \<open>AgentTradeResult\<close> and \<open>MarketActionResult\<close> carry the same two fields; the breakdown
  of a quote carries the four amounts the pricing model reports.
\<close>

record AgentTradeResult =
  d_base :: pyvalue
  d_bonds :: pyvalue

type_synonym MarketActionResult = AgentTradeResult

record TradeBreakdown =
  without_fee_or_slippage :: pyvalue
  without_fee :: pyvalue
  fee :: pyvalue
  with_fee :: pyvalue

record TradeResult =
  user_result :: AgentTradeResult
  market_result :: MarketActionResult
  breakdown :: TradeBreakdown

text \<open>
  The base classes leave \<open>calc_in_given_out\<close> and \<open>calc_out_given_in\<close> to their
  subclasses, so the two are parameters here: a quote, or the error the call raised.
\<close>

type_synonym calc_trade = "Quantity \<Rightarrow> MarketState \<Rightarrow> StretchedTime \<Rightarrow> error + TradeResult"

text \<open>\<open>PricingModel.get_max_long\<close>.\<close>

definition get_max_long ::
  "calc_trade \<Rightarrow> calc_trade \<Rightarrow> MarketState \<Rightarrow> StretchedTime \<Rightarrow> error + (pyvalue \<times> pyvalue)" where
  "get_max_long calc_in_given_out calc_out_given_in market_state time_remaining =
     (case calc_in_given_out
            \<lparr>amount = PyFloat (Finite (bond_reserves market_state - bond_buffer market_state)),
             unit = PT\<rparr> market_state time_remaining of
        Inl e \<Rightarrow> Inl e
      | Inr r_in \<Rightarrow>
          (let base = with_fee (breakdown r_in) in
           case calc_out_given_in \<lparr>amount = base, unit = BASE\<rparr> market_state time_remaining of
             Inl e \<Rightarrow> Inl e
           | Inr r_out \<Rightarrow> Inr (base, with_fee (breakdown r_out))))"

text \<open>\<open>PricingModel.get_max_short\<close>; the float division by \<open>share_price\<close> raises on zero.\<close>

definition get_max_short ::
  "calc_trade \<Rightarrow> calc_trade \<Rightarrow> MarketState \<Rightarrow> StretchedTime \<Rightarrow> error + (pyvalue \<times> pyvalue)" where
  "get_max_short calc_in_given_out calc_out_given_in market_state time_remaining =
     (if share_price market_state = 0 then Inl ZeroDivisionError
      else
        case calc_in_given_out
            \<lparr>amount = PyFloat (Finite (share_reserves market_state
                                - base_buffer market_state / share_price market_state)),
             unit = PT\<rparr> market_state time_remaining of
          Inl e \<Rightarrow> Inl e
        | Inr r_in \<Rightarrow>
            (let bonds = with_fee (breakdown r_in) in
             case calc_out_given_in \<lparr>amount = bonds, unit = PT\<rparr> market_state time_remaining of
               Inl e \<Rightarrow> Inl e
             | Inr r_out \<Rightarrow> Inr (with_fee (breakdown r_out), bonds)))"

text \<open>\<open>PricingModelFP.get_max_long\<close> and \<open>PricingModelFP.get_max_short\<close>.\<close>

definition get_max_long_fp ::
  "calc_trade \<Rightarrow> calc_trade \<Rightarrow> MarketState \<Rightarrow> StretchedTime \<Rightarrow> error + (pyvalue \<times> pyvalue)" where
  "get_max_long_fp calc_in_given_out calc_out_given_in market_state time_remaining =
     (case calc_in_given_out
            \<lparr>amount = PyFixedPoint (Finite (bond_reserves market_state - bond_buffer market_state)),
             unit = PT\<rparr> market_state time_remaining of
        Inl e \<Rightarrow> Inl e
      | Inr r_in \<Rightarrow>
          (let base = with_fee (breakdown r_in) in
           case calc_out_given_in \<lparr>amount = base, unit = BASE\<rparr> market_state time_remaining of
             Inl e \<Rightarrow> Inl e
           | Inr r_out \<Rightarrow> Inr (base, with_fee (breakdown r_out))))"

definition get_max_short_fp ::
  "calc_trade \<Rightarrow> calc_trade \<Rightarrow> MarketState \<Rightarrow> StretchedTime \<Rightarrow> error + (pyvalue \<times> pyvalue)" where
  "get_max_short_fp calc_in_given_out calc_out_given_in market_state time_remaining =
     (if share_price market_state = 0 then Inl FixedPointDivisionByZero
      else
        case calc_in_given_out
            \<lparr>amount = PyFixedPoint (Finite (share_reserves market_state
                                - base_buffer market_state / share_price market_state)),
             unit = PT\<rparr> market_state time_remaining of
          Inl e \<Rightarrow> Inl e
        | Inr r_in \<Rightarrow>
            (let bonds = with_fee (breakdown r_in) in
             case calc_out_given_in \<lparr>amount = bonds, unit = PT\<rparr> market_state time_remaining of
               Inl e \<Rightarrow> Inl e
             | Inr r_out \<Rightarrow> Inr (with_fee (breakdown r_out), bonds)))"

section \<open>Assertions on inputs and outputs\<close>

text \<open>
  The constants \<open>elfpy.WEI\<close>, \<open>elfpy.MAX_RESERVES_DIFFERENCE\<close> and
  \<open>elfpy.PRECISION_THRESHOLD\<close> (and their \<open>_FP\<close> twins) are defined outside the
  sources at hand, so the assertions take them as a parameter.
\<close>

record elfpy_constants =
  WEI :: real
  MAX_RESERVES_DIFFERENCE :: real
  PRECISION_THRESHOLD :: real

definition share_price_warning :: string where
  "share_price_warning = ''WARNING: expected share_price >= init_share_price''"

text \<open>
  \<open>PricingModel.check_input_assertions\<close>. The result is the log written so far and
  either the \<open>AssertionError\<close> of the first assertion that fails or normal return.
\<close>

definition check_input_assertions ::
  "elfpy_constants \<Rightarrow> Quantity \<Rightarrow> MarketState \<Rightarrow> StretchedTime \<Rightarrow> string list \<times> (error + unit)" where
  "check_input_assertions k quantity market_state time_remaining =
     (if \<not> number_ge (number_of (amount quantity)) (WEI k)
      then ([], Inl (AssertionError ''expected quantity.amount >= WEI''))
      else if \<not> 0 \<le> share_reserves market_state
      then ([], Inl (AssertionError ''expected share_reserves >= 0''))
      else if \<not> 0 \<le> bond_reserves market_state
      then ([], Inl (AssertionError ''expected bond_reserves >= 0''))
      else
        let log = (if share_price market_state < init_share_price market_state
                   then [share_price_warning] else []);
            reserves_difference =
              \<bar>share_reserves market_state * share_price market_state - bond_reserves market_state\<bar>
        in
        if \<not> 1 \<le> init_share_price market_state
        then (log, Inl (AssertionError ''expected init_share_price >= 1''))
        else if \<not> reserves_difference < MAX_RESERVES_DIFFERENCE k
        then (log, Inl (AssertionError ''expected reserves_difference < MAX_RESERVES_DIFFERENCE''))
        else if \<not> (curve_fee_multiple market_state \<le> 1 \<and> 0 \<le> curve_fee_multiple market_state)
        then (log, Inl (AssertionError ''expected 1 >= curve_fee_multiple >= 0''))
        else if \<not> (flat_fee_multiple market_state \<le> 1 \<and> 0 \<le> flat_fee_multiple market_state)
        then (log, Inl (AssertionError ''expected 1 >= flat_fee_multiple >= 0''))
        else if \<not> (stretched_time time_remaining \<le> 1 + PRECISION_THRESHOLD k
                     \<and> - PRECISION_THRESHOLD k \<le> stretched_time time_remaining)
        then (log, Inl (AssertionError ''expected stretched_time within the tolerance band''))
        else if \<not> (normalized_time time_remaining \<le> 1 + PRECISION_THRESHOLD k
                     \<and> - PRECISION_THRESHOLD k \<le> normalized_time time_remaining)
        then (log, Inl (AssertionError ''expected normalized_time within the tolerance band''))
        else (log, Inr ()))"

text \<open>\<open>PricingModelFP.check_input_assertions\<close>: the same checks, in the same order,
  against the \<open>_FP\<close> constants.\<close>

definition check_input_assertions_fp ::
  "elfpy_constants \<Rightarrow> Quantity \<Rightarrow> MarketState \<Rightarrow> StretchedTime \<Rightarrow> string list \<times> (error + unit)" where
  "check_input_assertions_fp k_fp quantity market_state time_remaining =
     (if \<not> number_ge (number_of (amount quantity)) (WEI k_fp)
      then ([], Inl (AssertionError ''expected quantity.amount >= WEI_FP''))
      else if \<not> 0 \<le> share_reserves market_state
      then ([], Inl (AssertionError ''expected share_reserves >= 0''))
      else if \<not> 0 \<le> bond_reserves market_state
      then ([], Inl (AssertionError ''expected bond_reserves >= 0''))
      else
        let log = (if share_price market_state < init_share_price market_state
                   then [share_price_warning] else []);
            reserves_difference =
              \<bar>share_reserves market_state * share_price market_state - bond_reserves market_state\<bar>
        in
        if \<not> 1 \<le> init_share_price market_state
        then (log, Inl (AssertionError ''expected init_share_price >= 1''))
        else if \<not> reserves_difference < MAX_RESERVES_DIFFERENCE k_fp
        then (log, Inl (AssertionError ''expected reserves_difference < MAX_RESERVES_DIFFERENCE_FP''))
        else if \<not> (curve_fee_multiple market_state \<le> 1 \<and> 0 \<le> curve_fee_multiple market_state)
        then (log, Inl (AssertionError ''expected 1 >= curve_fee_multiple >= 0''))
        else if \<not> (flat_fee_multiple market_state \<le> 1 \<and> 0 \<le> flat_fee_multiple market_state)
        then (log, Inl (AssertionError ''expected 1 >= flat_fee_multiple >= 0''))
        else if \<not> (stretched_time time_remaining \<le> 1 + PRECISION_THRESHOLD k_fp
                     \<and> - PRECISION_THRESHOLD k_fp \<le> stretched_time time_remaining)
        then (log, Inl (AssertionError ''expected stretched_time within the tolerance band''))
        else if \<not> (normalized_time time_remaining \<le> 1 + PRECISION_THRESHOLD k_fp
                     \<and> - PRECISION_THRESHOLD k_fp \<le> normalized_time time_remaining)
        then (log, Inl (AssertionError ''expected normalized_time within the tolerance band''))
        else (log, Inr ()))"

text \<open>\<open>PricingModel.check_output_assertions\<close>: four assertions, in this order.\<close>

definition check_output_assertions :: "TradeResult \<Rightarrow> error + unit" where
  "check_output_assertions trade_result =
     (if \<not> is_float (fee (breakdown trade_result))
      then Inl (AssertionError ''fee should be a float'')
      else if \<not> number_ge (number_of (fee (breakdown trade_result))) 0
      then Inl (AssertionError ''Fee should not be negative'')
      else if \<not> is_float (without_fee (breakdown trade_result))
      then Inl (AssertionError ''without_fee should be a float'')
      else if \<not> number_ge (number_of (without_fee (breakdown trade_result))) 0
      then Inl (AssertionError ''without_fee should be non-negative'')
      else Inr ())"

text \<open>\<open>PricingModelFP.check_output_assertions\<close>.\<close>

definition check_output_assertions_fp :: "TradeResult \<Rightarrow> error + unit" where
  "check_output_assertions_fp trade_result =
     (if \<not> is_fixedpoint (fee (breakdown trade_result))
      then Inl (AssertionError ''fee should be a FixedPoint'')
      else if \<not> number_ge (number_of (fee (breakdown trade_result))) 0
      then Inl (AssertionError ''Fee should not be negative'')
      else if \<not> is_fixedpoint (without_fee (breakdown trade_result))
      then Inl (AssertionError ''without_fee should be a FixedPoint'')
      else if \<not> number_ge (number_of (without_fee (breakdown trade_result))) 0
      then Inl (AssertionError ''without_fee should be non-negative'')
      else Inr ())"

section \<open>Concrete inputs\<close>

text \<open>
  The constants as elfpy sets them, a pool whose share price has fallen below its
  initial share price, a one-year term, and a pricing model that quotes back the amount
  it is asked about. They instantiate the theorems below.
\<close>

definition elfpy_defaults :: elfpy_constants where
  "elfpy_defaults =
     \<lparr>WEI = 1 / 10 ^ 18, MAX_RESERVES_DIFFERENCE = 2 * 10 ^ 10, PRECISION_THRESHOLD = 1 / 10 ^ 8\<rparr>"

definition discounted_state :: MarketState where
  "discounted_state =
     \<lparr>share_reserves = 1, bond_reserves = 1, lp_total_supply = 2, share_price = 1,
      init_share_price = 2, curve_fee_multiple = 0, flat_fee_multiple = 0,
      base_buffer = 0, bond_buffer = 0\<rparr>"

definition one_year :: StretchedTime where
  "one_year = \<lparr>days = 365, time_stretch = 1, normalizing_constant = 365\<rparr>"

definition one_base :: Quantity where
  "one_base = \<lparr>amount = PyFloat (Finite 1), unit = BASE\<rparr>"

definition echo_result :: "pyvalue \<Rightarrow> TradeResult" where
  "echo_result v =
     \<lparr>user_result = \<lparr>d_base = v, d_bonds = v\<rparr>,
      market_result = \<lparr>d_base = v, d_bonds = v\<rparr>,
      breakdown = \<lparr>without_fee_or_slippage = v, without_fee = v,
                   fee = PyFloat (Finite 0), with_fee = v\<rparr>\<rparr>"

definition echo_trade :: calc_trade where
  "echo_trade q market_state time_remaining = Inr (echo_result (amount q))"

definition infinite_fee_result :: TradeResult where
  "infinite_fee_result =
     \<lparr>user_result = \<lparr>d_base = PyFloat (Finite 0), d_bonds = PyFloat (Finite 0)\<rparr>,
      market_result = \<lparr>d_base = PyFloat (Finite 0), d_bonds = PyFloat (Finite 0)\<rparr>,
      breakdown = \<lparr>without_fee_or_slippage = PyFloat (Finite 0), without_fee = PyFloat (Finite 0),
                   fee = PyFloat PosInf, with_fee = PyFloat PosInf\<rparr>\<rparr>"

section \<open>Applying a delta to the market\<close>

text \<open>
  A delta is read through its \<open>__dict__\<close>: the fields in order, each unset (\<open>None\<close>),
  a number or a \<open>Quantity\<close>.
\<close>

datatype delta_value = DeltaNone | DeltaNumber number | DeltaQuantity Quantity

type_synonym MarketDeltas = "(string \<times> delta_value) list"

text \<open>Python's truth value of a field (\<open>if value:\<close>): \<open>None\<close> and zero are false,
  not-a-number, the infinities and every \<open>Quantity\<close> object are true.\<close>

fun truthy :: "delta_value \<Rightarrow> bool" where
  "truthy DeltaNone = False"
| "truthy (DeltaNumber (Finite x)) = (x \<noteq> 0)"
| "truthy (DeltaNumber PosInf) = True"
| "truthy (DeltaNumber NegInf) = True"
| "truthy (DeltaNumber NotANumber) = True"
| "truthy (DeltaQuantity q) = True"

text \<open>\<open>value.amount if isinstance(value, types.Quantity) else value\<close>, on a field that
  is set.\<close>

fun value_to_check :: "delta_value \<Rightarrow> number" where
  "value_to_check (DeltaQuantity q) = number_of (amount q)"
| "value_to_check (DeltaNumber n) = n"
| "value_to_check DeltaNone = Finite 0"

text \<open>\<open>Market.check_market_updates\<close>: the loop over the fields stops at the first one
  that is set, non-empty and not finite.\<close>

fun check_market_updates :: "MarketDeltas \<Rightarrow> error + unit" where
  "check_market_updates [] = Inr ()"
| "check_market_updates ((key, v) # rest) =
     (if truthy v \<and> \<not> isfinite (value_to_check v)
      then Inl (AssertionError (''ERROR: market delta key '' @ key @ '' is not finite.''))
      else check_market_updates rest)"

text \<open>
  \<open>apply_delta\<close> is abstract in \<open>BaseMarketState\<close> and \<open>check_non_zero\<close> lives in the
  package's top module, so both are parameters. \<open>apply_delta\<close> mutates the market state
  in place: it yields the state it leaves behind, together with the error it raised, if
  any. The outcome of \<open>update_market\<close> is likewise the error raised, if any, and the
  market state the caller sees afterwards.
\<close>

type_synonym 's outcome = "error option \<times> 's"

text \<open>\<open>Market.update_market\<close>.\<close>

definition update_market ::
  "(MarketDeltas \<Rightarrow> 's \<Rightarrow> 's outcome) \<Rightarrow> ('s \<Rightarrow> error + unit) \<Rightarrow> MarketDeltas \<Rightarrow> 's \<Rightarrow> 's outcome" where
  "update_market apply_delta check_non_zero market_deltas market_state =
     (case check_market_updates market_deltas of
        Inl e \<Rightarrow> (Some e, market_state)
      | Inr u \<Rightarrow>
          (case apply_delta market_deltas market_state of
             (Some e, s') \<Rightarrow> (Some e, s')
           | (None, s') \<Rightarrow>
               (case check_non_zero s' of
                  Inl e \<Rightarrow> (Some e, s')
                | Inr u \<Rightarrow> (None, s'))))"

text \<open>\<open>MarketFP.update_market\<close>: no check of the delta before it is applied.\<close>

definition update_market_fp ::
  "(MarketDeltas \<Rightarrow> 's \<Rightarrow> 's outcome) \<Rightarrow> ('s \<Rightarrow> error + unit) \<Rightarrow> MarketDeltas \<Rightarrow> 's \<Rightarrow> 's outcome" where
  "update_market_fp apply_delta check_non_zero_fp market_deltas market_state =
     (case apply_delta market_deltas market_state of
        (Some e, s') \<Rightarrow> (Some e, s')
      | (None, s') \<Rightarrow>
          (case check_non_zero_fp s' of
             Inl e \<Rightarrow> (Some e, s')
           | Inr u \<Rightarrow> (None, s')))"

subsection \<open>A ledger to run the update on\<close>

text \<open>
  An instance of the two parameters, for the concrete runs below: a ledger of two
  reserves, a delta application that adds the increments \<open>d_base_asset\<close> and
  \<open>d_bond_asset\<close> to them with IEEE addition and raises nothing, and a check that
  rejects a ledger with a reserve that is not \<open>>= 0\<close>.
\<close>

record Reserves =
  reserve_shares :: number
  reserve_bonds :: number

fun number_add :: "number \<Rightarrow> number \<Rightarrow> number" where
  "number_add (Finite x) (Finite y) = Finite (x + y)"
| "number_add NotANumber n = NotANumber"
| "number_add n NotANumber = NotANumber"
| "number_add PosInf NegInf = NotANumber"
| "number_add NegInf PosInf = NotANumber"
| "number_add PosInf n = PosInf"
| "number_add n PosInf = PosInf"
| "number_add NegInf n = NegInf"
| "number_add n NegInf = NegInf"

fun increment :: "MarketDeltas \<Rightarrow> string \<Rightarrow> number" where
  "increment [] name = Finite 0"
| "increment ((key, v) # rest) name =
     (if key = name then value_to_check v else increment rest name)"

definition add_increments :: "MarketDeltas \<Rightarrow> Reserves \<Rightarrow> Reserves outcome" where
  "add_increments delta s =
     (None, s\<lparr>reserve_shares := number_add (reserve_shares s) (increment delta ''d_base_asset''),
              reserve_bonds := number_add (reserve_bonds s) (increment delta ''d_bond_asset'')\<rparr>)"

definition reserves_non_negative :: "Reserves \<Rightarrow> error + unit" where
  "reserves_non_negative s =
     (if number_ge (reserve_shares s) 0 \<and> number_ge (reserve_bonds s) 0 then Inr ()
      else Inl (AssertionError ''a reserve is negative''))"

definition unit_reserves :: Reserves where
  "unit_reserves = \<lparr>reserve_shares = Finite 1, reserve_bonds = Finite 1\<rparr>"

definition overdraw_bonds :: MarketDeltas where
  "overdraw_bonds = [(''d_base_asset'', DeltaNumber (Finite 0)),
                     (''d_bond_asset'', DeltaNumber (Finite (- 2)))]"

definition infinite_bonds :: MarketDeltas where
  "infinite_bonds = [(''d_base_asset'', DeltaNumber (Finite 0)),
                     (''d_bond_asset'', DeltaNumber PosInf)]"

section \<open>Spot price, APR and bond reserves\<close>

text \<open>
  Python's float power \<open>x ** y\<close>: zero to a negative power raises
  \<open>ZeroDivisionError\<close>, and a negative base with a fractional exponent yields a complex
  number, which is no float any more.
\<close>

definition float_pow :: "real \<Rightarrow> real \<Rightarrow> error + real" where
  "float_pow x y =
     (if 0 < x then Inr (x powr y)
      else if x = 0 then (if 0 < y then Inr 0 else if y = 0 then Inr 1 else Inl ZeroDivisionError)
      else if y = of_int \<lfloor>y\<rfloor> then Inr (x powi \<lfloor>y\<rfloor>)
      else Inl ComplexResult)"

text \<open>
  \<open>Decimal\<close> division and power under the default traps: \<open>x / 0\<close> raises
  \<open>DivisionByZero\<close>, \<open>0 / 0\<close> and \<open>0 ** 0\<close> and a negative base with a fractional
  exponent raise \<open>InvalidOperation\<close>, and zero to a negative power is \<open>Infinity\<close>.
\<close>

definition decimal_div :: "real \<Rightarrow> real \<Rightarrow> error + real" where
  "decimal_div a b =
     (if b = 0 then (if a = 0 then Inl DecimalInvalidOperation else Inl DecimalDivisionByZero)
      else Inr (a / b))"

definition decimal_pow :: "real \<Rightarrow> real \<Rightarrow> error + number" where
  "decimal_pow x y =
     (if y = 0 then (if x = 0 then Inl DecimalInvalidOperation else Inr (Finite 1))
      else if x < 0 then
        (if y = of_int \<lfloor>y\<rfloor> then Inr (Finite (x powi \<lfloor>y\<rfloor>)) else Inl DecimalInvalidOperation)
      else if x = 0 then (if 0 < y then Inr (Finite 0) else Inr PosInf)
      else Inr (Finite (x powr y)))"

text \<open>\<open>PricingModel.calc_bond_reserves\<close>.\<close>

definition calc_bond_reserves :: "real \<Rightarrow> StretchedTime \<Rightarrow> MarketState \<Rightarrow> error + real" where
  "calc_bond_reserves target_apr time_remaining market_state =
     (let annualized_time = norm_days (days time_remaining) 365 in
      if stretched_time time_remaining = 0 then Inl ZeroDivisionError
      else
        case float_pow (1 + target_apr * annualized_time) (1 / stretched_time time_remaining) of
          Inl e \<Rightarrow> Inl e
        | Inr interest_factor \<Rightarrow>
            Inr (init_share_price market_state * share_reserves market_state * interest_factor
                 - lp_total_supply market_state))"

text \<open>\<open>PricingModel._calc_spot_price_from_reserves_high_precision\<close>: the \<open>Decimal\<close>
  path, with no guard before the division.\<close>

definition calc_spot_price_from_reserves_high_precision ::
  "MarketState \<Rightarrow> StretchedTime \<Rightarrow> error + number" where
  "calc_spot_price_from_reserves_high_precision market_state time_remaining =
     (let mu = init_share_price market_state;
          z = share_reserves market_state;
          y = bond_reserves market_state;
          s = lp_total_supply market_state;
          tau = stretched_time time_remaining
      in case decimal_div (mu * z) (y + s) of
           Inl e \<Rightarrow> Inl e
         | Inr ratio \<Rightarrow> decimal_pow ratio tau)"

text \<open>
  \<open>PricingModel.calc_spot_price_from_reserves\<close>: \<open>float\<close> of the high-precision value.
  The narrowing \<open>float\<close> is a parameter; in exact arithmetic it changes nothing.
\<close>

definition calc_spot_price_from_reserves ::
  "(number \<Rightarrow> number) \<Rightarrow> MarketState \<Rightarrow> StretchedTime \<Rightarrow> error + number" where
  "calc_spot_price_from_reserves to_float market_state time_remaining =
     (case calc_spot_price_from_reserves_high_precision market_state time_remaining of
        Inl e \<Rightarrow> Inl e
      | Inr p \<Rightarrow> Inr (to_float p))"

text \<open>
  \<open>PricingModelFP.calc_spot_price_from_reserves\<close>: the guard against a zero divisor
  comes first and returns \<open>FixedPoint("nan")\<close>. The power of \<open>FixedPoint\<close> is defined
  outside the sources at hand and is a parameter.
\<close>

definition calc_spot_price_from_reserves_fp ::
  "(real \<Rightarrow> real \<Rightarrow> error + number) \<Rightarrow> MarketState \<Rightarrow> StretchedTime \<Rightarrow> error + number" where
  "calc_spot_price_from_reserves_fp fixedpoint_pow market_state time_remaining =
     (if bond_reserves market_state + lp_total_supply market_state = 0 then Inr NotANumber
      else fixedpoint_pow
             ((init_share_price market_state * share_reserves market_state)
                / (bond_reserves market_state + lp_total_supply market_state))
             (stretched_time time_remaining))"

text \<open>
  Modelled from the spec: \<open>price_utils.calc_apr_from_spot_price\<close> is not among the
  sources. The spec gives \<open>apr = (1/price - 1) / normalized_time\<close>; the two float
  divisions raise on a zero divisor, \<open>1 / inf\<close> is zero and not-a-number propagates.
\<close>

definition calc_apr_from_spot_price :: "number \<Rightarrow> StretchedTime \<Rightarrow> error + number" where
  "calc_apr_from_spot_price price time_remaining =
     (case price of
        Finite p \<Rightarrow>
          if p = 0 \<or> normalized_time time_remaining = 0 then Inl ZeroDivisionError
          else Inr (Finite ((1 / p - 1) / normalized_time time_remaining))
      | NotANumber \<Rightarrow>
          if normalized_time time_remaining = 0 then Inl ZeroDivisionError else Inr NotANumber
      | _ \<Rightarrow>
          if normalized_time time_remaining = 0 then Inl ZeroDivisionError
          else Inr (Finite ((0 - 1) / normalized_time time_remaining)))"

text \<open>\<open>PricingModel.calc_apr_from_reserves\<close>.\<close>

definition calc_apr_from_reserves ::
  "(number \<Rightarrow> number) \<Rightarrow> MarketState \<Rightarrow> StretchedTime \<Rightarrow> error + number" where
  "calc_apr_from_reserves to_float market_state time_remaining =
     (case calc_spot_price_from_reserves to_float market_state time_remaining of
        Inl e \<Rightarrow> Inl e
      | Inr spot_price \<Rightarrow> calc_apr_from_spot_price spot_price time_remaining)"

subsection \<open>Pools for the concrete runs\<close>

definition unit_state :: MarketState where
  "unit_state =
     \<lparr>share_reserves = 1, bond_reserves = 1, lp_total_supply = 1, share_price = 1,
      init_share_price = 1, curve_fee_multiple = 0, flat_fee_multiple = 0,
      base_buffer = 0, bond_buffer = 0\<rparr>"

definition no_bonds_no_supply :: MarketState where
  "no_bonds_no_supply = unit_state\<lparr>bond_reserves := 0, lp_total_supply := 0\<rparr>"

definition no_shares :: MarketState where
  "no_shares = unit_state\<lparr>share_reserves := 0\<rparr>"

definition at_maturity :: StretchedTime where
  "at_maturity = \<lparr>days = 0, time_stretch = 1, normalizing_constant = 365\<rparr>"

definition exact_pow :: "real \<Rightarrow> real \<Rightarrow> error + number" where
  "exact_pow x y = Inr (Finite (x powr y))"

section \<open>Checkpoints\<close>

text \<open>
  Modelled from the spec: the market's \<open>checkpoint\<close> operation is only called by the
  tests at hand, its code is not among the sources. The spec: a checkpoint for time
  \<open>t\<close> must have \<open>t \<le> now\<close> and \<open>t mod checkpoint_duration == 0\<close>, else it fails
  with an invalid-timestamp error; if bucket \<open>t\<close> already has a recorded checkpoint the
  call is a no-op; on first creation it snapshots the current share price into the
  checkpoint and settles every position whose maturity falls within bucket \<open>t\<close>. A
  checkpoint is never overwritten once created, so the settlement works on the ledger
  of reserves and outstanding-position aggregates only, and is a parameter here.
\<close>

record Checkpoint =
  checkpoint_share_price :: real

record 'l Hyperdrive =
  block_time :: real
  checkpoint_duration :: real
  current_share_price :: real
  ledger :: 'l
  checkpoints :: "real \<rightharpoonup> Checkpoint"

text \<open>
  Modelled from the spec: the \<open>mod\<close> of \<open>t mod checkpoint_duration == 0\<close>, as the
  remainder of a float division, with the sign of the divisor.
\<close>

definition float_mod :: "real \<Rightarrow> real \<Rightarrow> real" where
  "float_mod t d = t - d * of_int \<lfloor>t / d\<rfloor>"

text \<open>
  Modelled from the spec: the \<open>checkpoint\<close> operation described above, in the order the
  spec gives: the timestamp check, the no-op on a recorded bucket, then the snapshot of
  the share price and the settlement.
\<close>

definition checkpoint ::
  "(real \<Rightarrow> 'l \<Rightarrow> 'l) \<Rightarrow> real \<Rightarrow> 'l Hyperdrive \<Rightarrow> error + 'l Hyperdrive" where
  "checkpoint settle t m =
     (if block_time m < t \<or> float_mod t (checkpoint_duration m) \<noteq> 0
      then Inl InvalidCheckpointTime
      else if checkpoints m t \<noteq> None then Inr m
      else Inr (m\<lparr>checkpoints :=
                     (checkpoints m)(t \<mapsto> \<lparr>checkpoint_share_price = current_share_price m\<rparr>),
                   ledger := settle t (ledger m)\<rparr>))"

text \<open>A market two buckets old with no checkpoint yet; its ledger counts the
  settlements that have run.\<close>

definition fresh_market :: "nat Hyperdrive" where
  "fresh_market =
     \<lparr>block_time = 2, checkpoint_duration = 1, current_share_price = 3 / 2, ledger = 0,
      checkpoints = Map.empty\<rparr>"

definition count_settlement :: "real \<Rightarrow> nat \<Rightarrow> nat" where
  "count_settlement t n = Suc n"

section \<open>Properties\<close>

subsection \<open>Rounding to a float\<close>

lemma round_half_even_bounds: "\<lfloor>y\<rfloor> \<le> round_half_even y" "round_half_even y \<le> \<lfloor>y\<rfloor> + 1"
  by (simp_all add: round_half_even_def Let_def)

lemma round_half_even_of_int [simp]: "round_half_even (of_int n) = n"
  by (simp add: round_half_even_def)

lemma round_half_even_zero [simp]: "round_half_even 0 = 0"
  using round_half_even_of_int [of 0] by simp

lemma round_half_even_mono:
  assumes "y1 \<le> y2"
  shows "round_half_even y1 \<le> round_half_even y2"
proof (cases "\<lfloor>y1\<rfloor> = \<lfloor>y2\<rfloor>")
  case True
  then have "y1 - of_int \<lfloor>y1\<rfloor> \<le> y2 - of_int \<lfloor>y2\<rfloor>" using assms by simp
  with True show ?thesis
    by (auto simp: round_half_even_def Let_def)
next
  case False
  with assms have "\<lfloor>y1\<rfloor> < \<lfloor>y2\<rfloor>"
    using floor_mono [OF assms] by linarith
  then have "round_half_even y1 \<le> \<lfloor>y2\<rfloor>"
    using round_half_even_bounds(2) [of y1] by linarith
  then show ?thesis using round_half_even_bounds(1) [of y2] by linarith
qed

lemma round_half_even_ge: "of_int n \<le> y \<Longrightarrow> n \<le> round_half_even y"
  using round_half_even_mono [of "of_int n" y] by simp

lemma round_half_even_le: "y \<le> of_int n \<Longrightarrow> round_half_even y \<le> n"
  using round_half_even_mono [of y "of_int n"] by simp

lemma round_half_even_near:
  assumes "\<bar>y - of_int n\<bar> < 1 / 2"
  shows "round_half_even y = n"
proof -
  have lo: "of_int n - 1 / 2 < y" and hi: "y < of_int n + 1 / 2"
    using assms by linarith+
  have "\<lfloor>y\<rfloor> = n \<or> \<lfloor>y\<rfloor> = n - 1" using lo hi by linarith
  then show ?thesis
  proof
    assume f: "\<lfloor>y\<rfloor> = n"
    have "y - of_int n < 1 / 2" using hi by linarith
    with f show ?thesis by (simp add: round_half_even_def Let_def)
  next
    assume f: "\<lfloor>y\<rfloor> = n - 1"
    have "of_int (n - 1) = (of_int n :: real) - 1" by simp
    then have "1 / 2 < y - of_int (n - 1)" using lo by linarith
    moreover have "\<not> y - of_int (n - 1) < 1 / 2" using calculation by linarith
    ultimately show ?thesis unfolding round_half_even_def Let_def f by simp
  qed
qed


lemma power_int_two_pos [simp]: "0 < (2::real) powi e"
  by simp

lemma power_int_two_succ: "(2::real) powi (e + 1) = 2 * 2 powi e"
  by (simp add: power_int_add)

lemma power_int_two_le: "e \<le> e' \<Longrightarrow> (2::real) powi e \<le> 2 powi e'"
  by (rule power_int_increasing) simp_all

lemma binade_bounds:
  assumes "0 < a"
  shows "2 powi binade a \<le> a" and "a < 2 powi (binade a + 1)"
proof -
  have "2 powi binade a \<le> a \<and> a < 2 powi (binade a + 1)"
  proof (cases "1 \<le> a")
    case True
    let ?m = "\<lfloor>a\<rfloor>"
    have m: "0 < ?m" using True by linarith
    let ?e = "bitlen ?m - 1"
    have e0: "0 \<le> ?e" using m bitlen_eq_zero_iff [of ?m] bitlen_nonneg [of ?m] by linarith
    have b: "2 ^ nat ?e \<le> ?m" "?m < 2 ^ nat (bitlen ?m)"
      using bitlen_bounds [OF m] by auto
    have be: "binade a = ?e" using True by (simp add: binade_def)
    have p: "(2::real) powi ?e = 2 ^ nat ?e" using e0 by (simp add: power_int_nonneg_exp)
    have "(2::real) ^ nat ?e = of_int (2 ^ nat ?e)" by simp
    also have "\<dots> \<le> of_int ?m" using b(1) by (simp only: of_int_le_iff)
    also have "\<dots> \<le> a" by simp
    finally have lo: "2 powi ?e \<le> a" unfolding p .
    have "nat (bitlen ?m) = Suc (nat ?e)" using e0 by simp
    then have "?m + 1 \<le> 2 ^ Suc (nat ?e)" using b(2) by simp
    then have "(of_int (?m + 1) :: real) \<le> of_int (2 ^ Suc (nat ?e))"
      by (simp only: of_int_le_iff)
    then have "of_int ?m + 1 \<le> (2::real) * 2 ^ nat ?e" by simp
    moreover have "a < of_int ?m + 1" by linarith
    ultimately have "a < 2 * 2 powi ?e" unfolding p by linarith
    then have hi: "a < 2 powi (?e + 1)" by (simp only: power_int_two_succ)
    show ?thesis unfolding be using lo hi by simp
  next
    case False
    then have a1: "a < 1" by simp
    let ?m = "\<lfloor>1 / a\<rfloor>"
    have "1 < 1 / a" using assms a1 by simp
    then have m: "0 < ?m" by linarith
    let ?l = "bitlen ?m"
    have l1: "1 \<le> ?l" using m bitlen_eq_zero_iff [of ?m] bitlen_nonneg [of ?m] by linarith
    let ?P = "(2::real) ^ nat (?l - 1)"
    have P0: "0 < ?P" by simp
    have b: "2 ^ nat (?l - 1) \<le> ?m" "?m < 2 ^ nat ?l"
      using bitlen_bounds [OF m] by auto
    have "?P = of_int (2 ^ nat (?l - 1))" by simp
    also have "\<dots> \<le> of_int ?m" using b(1) by (simp only: of_int_le_iff)
    also have "\<dots> \<le> 1 / a" by simp
    finally have "?P \<le> 1 / a" .
    then have up: "a * ?P \<le> 1" using assms by (simp add: field_simps)
    have "nat ?l = Suc (nat (?l - 1))" using l1 by simp
    then have "?m + 1 \<le> 2 ^ Suc (nat (?l - 1))" using b(2) by simp
    then have "(of_int (?m + 1) :: real) \<le> of_int (2 ^ Suc (nat (?l - 1)))"
      by (simp only: of_int_le_iff)
    then have "of_int ?m + 1 \<le> 2 * ?P" by simp
    moreover have "1 / a < of_int ?m + 1" by linarith
    ultimately have "1 / a < 2 * ?P" by linarith
    then have dn: "1 < 2 * ?P * a" using assms by (simp add: field_simps)
    have p1: "(2::real) powi (?l - 1) = ?P" using l1 by (simp add: power_int_nonneg_exp)
    have p2: "(2::real) powi (1 - ?l) = 1 / ?P"
      using power_int_minus_divide [of "2::real" "?l - 1"] p1 by simp
    have p3: "(2::real) powi (- ?l) = 1 / (2 * ?P)"
    proof -
      have "(2::real) powi ?l = 2 * ?P"
        using power_int_two_succ [of "?l - 1"] p1 by simp
      then show ?thesis using power_int_minus_divide [of "2::real" ?l] by simp
    qed
    have p4: "(2::real) powi (2 - ?l) = 2 / ?P"
      using power_int_two_succ [of "1 - ?l"] p2 by (simp add: algebra_simps)
    show ?thesis
    proof (cases "a * 2 powi (?l - 1) = 1")
      case True
      then have be: "binade a = 1 - ?l" using False by (simp add: binade_def Let_def)
      from True have eq: "a * ?P = 1" unfolding p1 .
      then have aeq: "a = 1 / ?P" using P0 by (simp add: field_simps)
      have two: "2 / ?P = 2 * (1 / ?P)" by simp
      have pos: "0 < 1 / ?P" using P0 by simp
      have s: "1 - ?l + 1 = 2 - ?l" by simp
      have "2 powi (1 - ?l) \<le> a" using p2 aeq by linarith
      moreover have "a < 2 powi (1 - ?l + 1)" unfolding s using p4 aeq two pos by linarith
      ultimately show ?thesis unfolding be by simp
    next
      case F2: False
      then have be: "binade a = - ?l" using False by (simp add: binade_def Let_def)
      from F2 have "a * ?P \<noteq> 1" unfolding p1 .
      with up have "a * ?P < 1" by simp
      then have "a < 1 / ?P" using P0 by (simp add: field_simps)
      then have hi: "a < 2 powi (- ?l + 1)" using p2 by (simp add: algebra_simps)
      have "1 / (2 * ?P) < a" using dn P0 by (simp add: field_simps)
      then have lo: "2 powi (- ?l) \<le> a" using p3 by simp
      show ?thesis unfolding be using lo hi by simp
    qed
  qed
  then show "2 powi binade a \<le> a" and "a < 2 powi (binade a + 1)" by simp_all
qed

lemma binade_eqI:
  assumes "2 powi e \<le> a" and "a < 2 powi (e + 1)"
  shows "binade a = e"
proof -
  have a: "0 < a" using assms(1) power_int_two_pos [of e] by linarith
  note b = binade_bounds [OF a]
  show ?thesis
  proof (rule ccontr)
    assume "binade a \<noteq> e"
    then consider "binade a + 1 \<le> e" | "e + 1 \<le> binade a" by linarith
    then show False
    proof cases
      case 1
      then have "(2::real) powi (binade a + 1) \<le> 2 powi e" by (rule power_int_two_le)
      with b(2) assms(1) show False by linarith
    next
      case 2
      then have "(2::real) powi (e + 1) \<le> 2 powi binade a" by (rule power_int_two_le)
      with b(1) assms(2) show False by linarith
    qed
  qed
qed

lemma binade_mono:
  assumes "0 < a" and "a \<le> b"
  shows "binade a \<le> binade b"
proof (rule ccontr)
  assume "\<not> binade a \<le> binade b"
  then have "binade b + 1 \<le> binade a" by simp
  then have "(2::real) powi (binade b + 1) \<le> 2 powi binade a" by (rule power_int_two_le)
  moreover have "0 < b" using assms by simp
  ultimately show False
    using binade_bounds(1) [OF assms(1)] binade_bounds(2) [of b] assms(2) by linarith
qed


lemma grid_ge:
  assumes "0 < u" and "of_int k * u \<le> a"
  shows "of_int k * u \<le> of_int (round_half_even (a / u)) * u"
proof -
  have "of_int k \<le> a / u" using assms by (simp add: field_simps)
  then have "k \<le> round_half_even (a / u)" by (rule round_half_even_ge)
  then have "(of_int k :: real) \<le> of_int (round_half_even (a / u))" by simp
  then show ?thesis using assms(1) by (rule mult_right_mono [OF _ less_imp_le])
qed

lemma grid_le:
  assumes "0 < u" and "a \<le> of_int k * u"
  shows "of_int (round_half_even (a / u)) * u \<le> of_int k * u"
proof -
  have "a / u \<le> of_int k" using assms by (simp add: field_simps)
  then have "round_half_even (a / u) \<le> k" by (rule round_half_even_le)
  then have "(of_int (round_half_even (a / u)) :: real) \<le> of_int k" by simp
  then show ?thesis using assms(1) by (rule mult_right_mono [OF _ less_imp_le])
qed

lemma ulp_of_pos [simp]: "0 < ulp_of a"
  by (simp add: ulp_of_def)

lemma ulp_of_nonneg [simp]: "0 \<le> ulp_of a"
  by (simp add: ulp_of_def)

lemma exponent_of_ge: "- 1022 \<le> exponent_of a" and binade_le_exponent: "binade a \<le> exponent_of a"
  by (simp_all add: exponent_of_def)

lemma scaled_ulp: "2 powi (exponent_of a + j) = of_int (2 ^ nat (j + 52)) * ulp_of a" if "- 52 \<le> j"
proof -
  have "exponent_of a + j = (j + 52) + (exponent_of a - 52)" by simp
  then have "(2::real) powi (exponent_of a + j) = 2 powi (j + 52) * 2 powi (exponent_of a - 52)"
    by (simp only: power_int_add [of "2::real", simplified])
  moreover have "(2::real) powi (j + 52) = 2 ^ nat (j + 52)"
    using that by (simp add: power_int_nonneg_exp)
  ultimately show ?thesis by (simp add: ulp_of_def)
qed

lemma round_magnitude_upper:
  assumes "0 < a"
  shows "round_magnitude a \<le> 2 powi (exponent_of a + 1)"
proof -
  have "a < 2 powi (binade a + 1)" by (rule binade_bounds(2) [OF assms])
  also have "\<dots> \<le> 2 powi (exponent_of a + 1)"
    by (rule power_int_two_le) (simp add: exponent_of_def)
  finally have "a \<le> of_int (2 ^ nat (1 + 52)) * ulp_of a"
    using scaled_ulp [of 1 a] by simp
  from grid_le [OF ulp_of_pos this] show ?thesis
    using scaled_ulp [of 1 a] by (simp add: round_magnitude_def)
qed

lemma round_magnitude_lower:
  assumes "0 < a" and "- 1022 \<le> binade a"
  shows "2 powi (exponent_of a) \<le> round_magnitude a"
proof -
  have e: "exponent_of a = binade a" using assms(2) by (simp add: exponent_of_def)
  have "2 powi (exponent_of a) \<le> a" unfolding e by (rule binade_bounds(1) [OF assms(1)])
  then have "of_int (2 ^ nat (0 + 52)) * ulp_of a \<le> a"
    using scaled_ulp [of 0 a] by simp
  from grid_ge [OF ulp_of_pos this] show ?thesis
    using scaled_ulp [of 0 a] by (simp add: round_magnitude_def)
qed

lemma round_magnitude_nonneg: "0 \<le> round_magnitude a" if "0 < a"
proof -
  have "of_int 0 * ulp_of a \<le> a" using that by simp
  from grid_ge [OF ulp_of_pos this] show ?thesis by (simp add: round_magnitude_def)
qed

lemma round_magnitude_mono:
  assumes "0 < a" and "a \<le> b"
  shows "round_magnitude a \<le> round_magnitude b"
proof -
  have b: "0 < b" using assms by simp
  have le: "exponent_of a \<le> exponent_of b"
    using binade_mono [OF assms] by (simp add: exponent_of_def)
  show ?thesis
  proof (cases "exponent_of a = exponent_of b")
    case True
    then have u: "ulp_of a = ulp_of b" by (simp add: ulp_of_def)
    have "a / ulp_of b \<le> b / ulp_of b"
      by (rule divide_right_mono [OF assms(2)]) simp
    then have "round_half_even (a / ulp_of b) \<le> round_half_even (b / ulp_of b)"
      by (rule round_half_even_mono)
    then have "(of_int (round_half_even (a / ulp_of b)) :: real)
                 \<le> of_int (round_half_even (b / ulp_of b))" by simp
    then show ?thesis
      unfolding round_magnitude_def u
      by (rule mult_right_mono) simp
  next
    case False
    with le have lt: "exponent_of a + 1 \<le> exponent_of b" by simp
    then have "- 1022 < exponent_of b" using exponent_of_ge [of a] by linarith
    then have bb: "- 1022 \<le> binade b" by (simp add: exponent_of_def max_def split: if_splits)
    have "round_magnitude a \<le> 2 powi (exponent_of a + 1)"
      by (rule round_magnitude_upper [OF assms(1)])
    also have "\<dots> \<le> 2 powi (exponent_of b)" using lt by (rule power_int_two_le)
    also have "\<dots> \<le> round_magnitude b" by (rule round_magnitude_lower [OF b bb])
    finally show ?thesis .
  qed
qed

lemma round_magnitude_subnormal_ge:
  assumes "1 \<le> n" and "n \<le> 2 ^ 52" and "of_int n * 2 powi (- 1074) \<le> a"
  shows "of_int n * 2 powi (- 1074) \<le> round_magnitude a"
proof -
  have "0 < of_int n * (2::real) powi (- 1074)" using assms(1) by simp
  with assms(3) have a: "0 < a" by linarith
  show ?thesis
  proof (cases "exponent_of a = - 1022")
    case True
    then have u: "ulp_of a = 2 powi (- 1074)" by (simp add: ulp_of_def)
    from grid_ge [of "2 powi (- 1074)" n a] assms(3)
    show ?thesis unfolding round_magnitude_def u by simp
  next
    case False
    then have gt: "- 1022 < exponent_of a" using exponent_of_ge [of a] by linarith
    then have ba: "- 1022 \<le> binade a" by (simp add: exponent_of_def max_def split: if_splits)
    have "(of_int n :: real) \<le> of_int (2 ^ 52)" using assms(2) by (simp only: of_int_le_iff)
    then have "of_int n * (2::real) powi (- 1074) \<le> 2 ^ 52 * 2 powi (- 1074)"
      by (intro mult_right_mono) simp_all
    also have "(2::real) ^ 52 * 2 powi (- 1074) = 2 powi (- 1022)"
    proof -
      have "(2::real) powi (52 + (- 1074)) = 2 powi 52 * 2 powi (- 1074)"
        by (rule power_int_add) simp
      then show ?thesis by simp
    qed
    also have "\<dots> \<le> 2 powi (exponent_of a)" using gt by (intro power_int_two_le) simp
    also have "\<dots> \<le> round_magnitude a" by (rule round_magnitude_lower [OF a ba])
    finally show ?thesis .
  qed
qed


lemma round_magnitude_le_power:
  assumes "0 < a" and "a < 2 powi k" and "- 1021 \<le> k"
  shows "round_magnitude a \<le> 2 powi k"
proof -
  have "binade a + 1 \<le> k"
  proof (rule ccontr)
    assume "\<not> binade a + 1 \<le> k"
    then have "k \<le> binade a" by simp
    then have "(2::real) powi k \<le> 2 powi binade a" by (rule power_int_two_le)
    with binade_bounds(1) [OF assms(1)] assms(2) show False by linarith
  qed
  then have "exponent_of a + 1 \<le> k" using assms(3) by (simp add: exponent_of_def)
  then have "(2::real) powi (exponent_of a + 1) \<le> 2 powi k" by (rule power_int_two_le)
  with round_magnitude_upper [OF assms(1)] show ?thesis by linarith
qed

lemma round_double_positive:
  assumes "0 < x"
  shows "round_double x
           = (if 2 powi 1024 \<le> round_magnitude x then PosInf else Finite (round_magnitude x))"
  using assms by (simp add: round_double_def Let_def)

lemma round_double_finite:
  assumes "0 < x" and "x < 2 powi k" and "- 1021 \<le> k" and "k \<le> 1023"
  shows "round_double x = Finite (round_magnitude x)"
proof -
  have "round_magnitude x \<le> 2 powi k" by (rule round_magnitude_le_power [OF assms(1-3)])
  also have "(2::real) powi k < 2 powi 1024"
    using assms(4) by (intro power_int_strict_increasing) simp_all
  finally show ?thesis using assms(1) by (simp add: round_double_positive)
qed

lemma round_double_mono:
  assumes "0 < x" and "x \<le> y"
  shows "number_le (round_double x) (round_double y)"
proof -
  have y: "0 < y" using assms by simp
  have "round_magnitude x \<le> round_magnitude y" by (rule round_magnitude_mono [OF assms])
  then show ?thesis
    by (simp add: round_double_positive [OF assms(1)] round_double_positive [OF y])
qed

lemma round_double_eqI:
  assumes "2 powi e \<le> x" and "x < 2 powi (e + 1)" and "- 1022 \<le> e" and "e \<le> 1022"
    and "\<bar>x / 2 powi (e - 52) - of_int n\<bar> < 1 / 2"
  shows "round_double x = Finite (of_int n * 2 powi (e - 52))"
proof -
  have x: "0 < x" using assms(1) power_int_two_pos [of e] by linarith
  have b: "binade x = e" by (rule binade_eqI [OF assms(1,2)])
  have u: "ulp_of x = 2 powi (e - 52)" using assms(3) by (simp add: ulp_of_def exponent_of_def b)
  have r: "round_magnitude x = of_int n * 2 powi (e - 52)"
    unfolding round_magnitude_def u using round_half_even_near [OF assms(5)] by simp
  have "round_double x = Finite (round_magnitude x)"
    by (rule round_double_finite [OF x assms(2)]) (use assms(3,4) in simp_all)
  then show ?thesis by (simp only: r)
qed

lemma double_ge_least:
  assumes "is_double a" and "0 < a"
  shows "2 powi (- 1074) \<le> a"
proof -
  from assms have r: "round_magnitude a = a"
    by (simp add: is_double_def round_double_positive split: if_splits)
  let ?n = "round_half_even (a / ulp_of a)"
  have eq: "of_int ?n * ulp_of a = a" using r by (simp add: round_magnitude_def)
  have "0 < ?n"
  proof (rule ccontr)
    assume "\<not> 0 < ?n"
    then have "(of_int ?n :: real) \<le> 0" by simp
    then have "of_int ?n * ulp_of a \<le> 0" by (simp add: mult_le_0_iff)
    with eq assms(2) show False by linarith
  qed
  then have "(1::real) \<le> of_int ?n" by linarith
  then have "1 * ulp_of a \<le> of_int ?n * ulp_of a" by (rule mult_right_mono) simp
  then have "ulp_of a \<le> a" using eq by simp
  moreover have "(2::real) powi (- 1074) \<le> ulp_of a"
    unfolding ulp_of_def using exponent_of_ge [of a] by (intro power_int_two_le) linarith
  ultimately show ?thesis by linarith
qed


subsection \<open>Time stretch\<close>

lemma round_double_0_02789: "round_double (2789 / 100000) = Finite double_0_02789"
  using round_double_eqI [where e = "- 6" and n = 8038745190871241 and x = "2789 / 100000"]
  by (simp add: double_0_02789_def)

lemma round_double_3_09396: "round_double (309396 / 100000) = Finite double_3_09396"
  using round_double_eqI [where e = 1 and n = 6966978551549610 and x = "309396 / 100000"]
  by (simp add: double_3_09396_def)

lemma calc_time_stretch_steps:
  assumes "round_double (a * 100) = Finite p"
    and "round_double (double_0_02789 * p) = Finite d" and "d \<noteq> 0"
    and "round_double (double_3_09396 / d) = v"
  shows "calc_time_stretch (Finite a) = Inr v"
  unfolding calc_time_stretch_def Let_def round_double_0_02789 round_double_3_09396
  using assms by simp

lemma stretch_divisor_facts:
  assumes "2 powi (- 1074) \<le> a" and "a \<le> 1"
  shows "round_double (a * 100) = Finite (round_magnitude (a * 100))"
    and "round_double (double_0_02789 * round_magnitude (a * 100)) = Finite (stretch_divisor a)"
    and "0 < stretch_divisor a"
proof -
  have a: "0 < a" using assms(1) power_int_two_pos [of "- 1074"] by linarith
  have x: "0 < a * 100" using a by simp
  have "a * 100 < 2 powi 7" using assms(2) by simp
  then show p: "round_double (a * 100) = Finite (round_magnitude (a * 100))"
    by (rule round_double_finite [OF x]) simp_all
  have ple: "round_magnitude (a * 100) \<le> 2 powi 7"
    by (rule round_magnitude_le_power [OF x]) (use assms(2) in simp_all)
  have "of_int 100 * 2 powi (- 1074) \<le> a * 100" using assms(1) by simp
  then have pge: "of_int 100 * 2 powi (- 1074) \<le> round_magnitude (a * 100)"
    by (rule round_magnitude_subnormal_ge [rotated 2]) simp_all
  have c: "0 < double_0_02789" "double_0_02789 < 1" "2 \<le> double_0_02789 * 100"
    by (simp_all add: double_0_02789_def)
  have "of_int 2 * 2 powi (- 1074) \<le> double_0_02789 * 100 * 2 powi (- 1074)"
    using c(3) by (intro mult_right_mono) simp_all
  also have "\<dots> = double_0_02789 * (of_int 100 * 2 powi (- 1074))" by simp
  also have "\<dots> \<le> double_0_02789 * round_magnitude (a * 100)"
    using pge c(1) by (intro mult_left_mono) simp_all
  finally have yge: "of_int 2 * 2 powi (- 1074) \<le> double_0_02789 * round_magnitude (a * 100)" .
  have "0 < of_int 2 * (2::real) powi (- 1074)" by simp
  with yge have y: "0 < double_0_02789 * round_magnitude (a * 100)" by linarith
  have "double_0_02789 * round_magnitude (a * 100) \<le> 1 * round_magnitude (a * 100)"
    using c(2) y c(1) by (intro mult_right_mono) (simp_all add: zero_less_mult_iff)
  also have "\<dots> \<le> 2 powi 7" using ple by simp
  also have "(2::real) powi 7 < 2 powi 8" by simp
  finally have "double_0_02789 * round_magnitude (a * 100) < 2 powi 8" .
  then have "round_double (double_0_02789 * round_magnitude (a * 100))
               = Finite (round_magnitude (double_0_02789 * round_magnitude (a * 100)))"
    by (rule round_double_finite [OF y]) simp_all
  then show "round_double (double_0_02789 * round_magnitude (a * 100)) = Finite (stretch_divisor a)"
    by (simp add: stretch_divisor_def)
  have "of_int 2 * 2 powi (- 1074) \<le> stretch_divisor a"
    unfolding stretch_divisor_def using yge
    by (rule round_magnitude_subnormal_ge [rotated 2]) simp_all
  then show "0 < stretch_divisor a"
    using \<open>0 < of_int 2 * (2::real) powi (- 1074)\<close> by linarith
qed

lemma stretch_divisor_mono:
  assumes "0 < a" and "a \<le> b"
  shows "stretch_divisor a \<le> stretch_divisor b"
proof -
  have c: "0 < double_0_02789" by (simp add: double_0_02789_def)
  have x: "0 < a * 100" using assms(1) by simp
  have p: "round_magnitude (a * 100) \<le> round_magnitude (b * 100)"
    by (rule round_magnitude_mono [OF x]) (use assms(2) in simp)
  show ?thesis
  proof (cases "round_magnitude (a * 100) = 0")
    case True
    have "0 < b * 100" using assms by simp
    then have pb: "0 \<le> round_magnitude (b * 100)" by (rule round_magnitude_nonneg)
    have z: "round_magnitude 0 = 0" by (simp add: round_magnitude_def)
    show ?thesis
    proof (cases "round_magnitude (b * 100) = 0")
      case T2: True
      with True show ?thesis by (simp add: stretch_divisor_def)
    next
      case False
      with pb have "0 < double_0_02789 * round_magnitude (b * 100)" using c by simp
      then have "0 \<le> stretch_divisor b"
        unfolding stretch_divisor_def by (rule round_magnitude_nonneg)
      then show ?thesis using True z by (simp add: stretch_divisor_def)
    qed
  next
    case False
    have "0 \<le> round_magnitude (a * 100)" by (rule round_magnitude_nonneg [OF x])
    with False have "0 < double_0_02789 * round_magnitude (a * 100)" using c by simp
    moreover have "double_0_02789 * round_magnitude (a * 100)
                     \<le> double_0_02789 * round_magnitude (b * 100)"
      using p c by (intro mult_left_mono) simp_all
    ultimately show ?thesis
      unfolding stretch_divisor_def by (rule round_magnitude_mono)
  qed
qed

lemma calc_time_stretch_value:
  assumes "is_double a" and "0 < a" and "a \<le> 1"
  shows "calc_time_stretch (Finite a) = Inr (round_double (double_3_09396 / stretch_divisor a))"
    and "0 < stretch_divisor a"
proof -
  have lo: "2 powi (- 1074) \<le> a" by (rule double_ge_least [OF assms(1,2)])
  note f = stretch_divisor_facts [OF lo assms(3)]
  show "0 < stretch_divisor a" by (rule f(3))
  then have "stretch_divisor a \<noteq> 0" by simp
  from calc_time_stretch_steps [OF f(1) f(2) this refl]
  show "calc_time_stretch (Finite a) = Inr (round_double (double_3_09396 / stretch_divisor a))" .
qed

lemma fixedpoint_divisor:
  "fixedpoint_mul 27890000000000000 (fixedpoint_mul n (100 * 10 ^ 18)) = (2789 * n) div 1000"
proof -
  have p: "fixedpoint_mul n (100 * 10 ^ 18) = n * 100"
    by (simp add: fixedpoint_mul_def)
  have n: "27890000000000000 * (n * 100) = 1000000000000000 * (2789 * n)" by simp
  have d: "(10::int) ^ 18 = 1000000000000000 * 1000" by simp
  have "fixedpoint_mul 27890000000000000 (fixedpoint_mul n (100 * 10 ^ 18))
          = fixedpoint_mul 27890000000000000 (n * 100)"
    by (simp only: p)
  also have "\<dots> = (27890000000000000 * (n * 100)) div 10 ^ 18"
    by (simp only: fixedpoint_mul_def)
  also have "\<dots> = (1000000000000000 * (2789 * n)) div (1000000000000000 * 1000)"
    by (simp only: n d)
  also have "\<dots> = (2789 * n) div 1000"
    by (rule div_mult_mult1) simp
  finally show ?thesis .
qed

lemma calc_time_stretch_fp_value:
  assumes "0 < n"
  shows "calc_time_stretch_fp n = Inr (3093960000000000000 * 10 ^ 18 div ((2789 * n) div 1000))"
    and "0 < (2789 * n) div 1000"
proof -
  have "2789 * 1 div 1000 \<le> (2789 * n) div (1000::int)"
    using assms by (intro zdiv_mono1) simp_all
  then show pos: "0 < (2789 * n) div 1000" by simp
  then show "calc_time_stretch_fp n = Inr (3093960000000000000 * 10 ^ 18 div ((2789 * n) div 1000))"
    unfolding calc_time_stretch_fp_def Let_def fixedpoint_divisor fixedpoint_div_def by simp
qed


lemma is_double_below_one:
  "is_double below_one_lo" "is_double below_one_hi"
  using round_double_eqI [where e = "- 1" and n = 9007199254740990 and x = below_one_lo]
        round_double_eqI [where e = "- 1" and n = 9007199254740991 and x = below_one_hi]
  by (simp_all add: is_double_def below_one_lo_def below_one_hi_def)

lemma calc_time_stretch_below_one_lo:
  "calc_time_stretch (Finite below_one_lo) = Inr (Finite (4996040553280467 / 2 ^ 52))"
proof -
  define p :: real where "p = 7036874417766398 / 2 ^ 46"
  define d :: real where "d = 6280269680368155 / 2 ^ 51"
  have 1: "round_double (below_one_lo * 100) = Finite p"
    using round_double_eqI [where e = 6 and n = 7036874417766398 and x = "below_one_lo * 100"]
    by (simp add: below_one_lo_def p_def)
  have 2: "round_double (double_0_02789 * p) = Finite d"
    using round_double_eqI [where e = 1 and n = 6280269680368155 and x = "double_0_02789 * p"]
    by (simp add: double_0_02789_def p_def d_def)
  have 3: "d \<noteq> 0" by (simp add: d_def)
  have 4: "round_double (double_3_09396 / d) = Finite (4996040553280467 / 2 ^ 52)"
    using round_double_eqI [where e = 0 and n = 4996040553280467 and x = "double_3_09396 / d"]
    by (simp add: double_3_09396_def d_def)
  show ?thesis by (rule calc_time_stretch_steps [OF 1 2 3 4])
qed

lemma calc_time_stretch_below_one_hi:
  "calc_time_stretch (Finite below_one_hi) = Inr (Finite (4996040553280467 / 2 ^ 52))"
proof -
  define p :: real where "p = 7036874417766399 / 2 ^ 46"
  define d :: real where "d = 6280269680368156 / 2 ^ 51"
  have 1: "round_double (below_one_hi * 100) = Finite p"
    using round_double_eqI [where e = 6 and n = 7036874417766399 and x = "below_one_hi * 100"]
    by (simp add: below_one_hi_def p_def)
  have 2: "round_double (double_0_02789 * p) = Finite d"
    using round_double_eqI [where e = 1 and n = 6280269680368156 and x = "double_0_02789 * p"]
    by (simp add: double_0_02789_def p_def d_def)
  have 3: "d \<noteq> 0" by (simp add: d_def)
  have 4: "round_double (double_3_09396 / d) = Finite (4996040553280467 / 2 ^ 52)"
    using round_double_eqI [where e = 0 and n = 4996040553280467 and x = "double_3_09396 / d"]
    by (simp add: double_3_09396_def d_def)
  show ?thesis by (rule calc_time_stretch_steps [OF 1 2 3 4])
qed

text \<open>
  C6, as the code has it. \<open>calc_time_stretch\<close> is monotonically decreasing in \<open>apr\<close>
  over the supported range, though not strictly: for floats \<open>0 < apr1 < apr2 \<le> 1\<close>
  both calls return and \<open>calc_time_stretch(apr1) \<ge> calc_time_stretch(apr2)\<close>, and
  likewise for fixed-point values \<open>0 < apr1 < apr2 \<le> 1\<close>. At \<open>apr = 0\<close> it does not
  return a value: the float variant fails with \<open>ZeroDivisionError\<close> and the fixed-point
  variant with its division-by-zero error.
\<close>

theorem calc_time_stretch_decreasing:
  "(is_double apr1 \<and> is_double apr2 \<and> 0 < apr1 \<and> apr1 < apr2 \<and> apr2 \<le> 1 \<longrightarrow>
      (\<exists>v1 v2. calc_time_stretch (Finite apr1) = Inr v1
          \<and> calc_time_stretch (Finite apr2) = Inr v2 \<and> number_le v2 v1))
   \<and> (0 < n1 \<and> n1 < n2 \<and> n2 \<le> 10 ^ 18 \<longrightarrow>
      (\<exists>w1 w2. calc_time_stretch_fp n1 = Inr w1 \<and> calc_time_stretch_fp n2 = Inr w2 \<and> w2 \<le> w1))
   \<and> calc_time_stretch (Finite 0) = Inl ZeroDivisionError
   \<and> calc_time_stretch_fp 0 = Inl FixedPointDivisionByZero"
proof (intro conjI impI)
  assume h: "is_double apr1 \<and> is_double apr2 \<and> 0 < apr1 \<and> apr1 < apr2 \<and> apr2 \<le> 1"
  then have d1: "is_double apr1" and d2: "is_double apr2" and p1: "0 < apr1"
    and lt: "apr1 < apr2" and le: "apr2 \<le> 1" by simp_all
  have p2: "0 < apr2" and le1: "apr1 \<le> 1" using p1 lt le by simp_all
  note v1 = calc_time_stretch_value [OF d1 p1 le1]
  note v2 = calc_time_stretch_value [OF d2 p2 le]
  have n: "0 < double_3_09396" by (simp add: double_3_09396_def)
  have "stretch_divisor apr1 \<le> stretch_divisor apr2"
    by (rule stretch_divisor_mono [OF p1]) (use lt in simp)
  then have q: "double_3_09396 / stretch_divisor apr2 \<le> double_3_09396 / stretch_divisor apr1"
    using v1(2) n by (intro divide_left_mono) (simp_all add: v2(2) mult_pos_pos)
  have "0 < double_3_09396 / stretch_divisor apr2" using n v2(2) by simp
  then have "number_le (round_double (double_3_09396 / stretch_divisor apr2))
               (round_double (double_3_09396 / stretch_divisor apr1))"
    using q by (rule round_double_mono)
  with v1(1) v2(1)
  show "\<exists>v1 v2. calc_time_stretch (Finite apr1) = Inr v1
          \<and> calc_time_stretch (Finite apr2) = Inr v2 \<and> number_le v2 v1"
    by blast
next
  assume h: "0 < n1 \<and> n1 < n2 \<and> n2 \<le> 10 ^ 18"
  then have p1: "0 < n1" and p2: "0 < n2" and lt: "n1 < n2" by simp_all
  note w1 = calc_time_stretch_fp_value [OF p1]
  note w2 = calc_time_stretch_fp_value [OF p2]
  have "(2789 * n1) div 1000 \<le> (2789 * n2) div 1000"
    using lt by (intro zdiv_mono1) simp_all
  then have "3093960000000000000 * 10 ^ 18 div ((2789 * n2) div 1000)
               \<le> 3093960000000000000 * 10 ^ 18 div ((2789 * n1) div 1000)"
    using w1(2) by (intro zdiv_mono2) simp_all
  with w1(1) w2(1)
  show "\<exists>w1 w2. calc_time_stretch_fp n1 = Inr w1 \<and> calc_time_stretch_fp n2 = Inr w2 \<and> w2 \<le> w1"
    by blast
next
  have z: "round_double 0 = Finite 0" by (simp add: round_double_def)
  show "calc_time_stretch (Finite 0) = Inl ZeroDivisionError"
    unfolding calc_time_stretch_def Let_def round_double_0_02789 round_double_3_09396
    by (simp add: z)
  show "calc_time_stretch_fp 0 = Inl FixedPointDivisionByZero"
    by (simp add: calc_time_stretch_fp_def fixedpoint_mul_def fixedpoint_div_def)
qed

theorem calc_time_stretch_decreasing_witness:
  "is_double below_one_lo \<and> is_double below_one_hi
   \<and> 0 < below_one_lo \<and> below_one_lo < below_one_hi \<and> below_one_hi \<le> 1
   \<and> (\<exists>v1 v2. calc_time_stretch (Finite below_one_lo) = Inr v1
          \<and> calc_time_stretch (Finite below_one_hi) = Inr v2 \<and> number_le v2 v1)
   \<and> (\<exists>w1 w2. calc_time_stretch_fp (5 * 10 ^ 16) = Inr w1
          \<and> calc_time_stretch_fp (10 ^ 17) = Inr w2 \<and> w2 \<le> w1)"
proof -
  have o: "0 < below_one_lo \<and> below_one_lo < below_one_hi \<and> below_one_hi \<le> 1"
    by (simp add: below_one_lo_def below_one_hi_def)
  from calc_time_stretch_decreasing [of below_one_lo below_one_hi "5 * 10 ^ 16" "10 ^ 17"]
       is_double_below_one o
  show ?thesis by simp
qed

text \<open>
  Two different APRs with one time stretch: the floats \<open>0.9999999999999998\<close> and
  \<open>0.9999999999999999\<close> both give \<open>1.1093438508425961\<close>, and the fixed-point values
  \<open>0.999999999999999952\<close> and \<open>0.999999999999999953\<close> both give
  \<open>1.109343850842595965\<close>.
\<close>

theorem calc_time_stretch_collision:
  "is_double below_one_lo \<and> is_double below_one_hi
   \<and> 0 < below_one_lo \<and> below_one_lo < below_one_hi \<and> below_one_hi \<le> 1
   \<and> calc_time_stretch (Finite below_one_lo) = Inr (Finite (4996040553280467 / 2 ^ 52))
   \<and> calc_time_stretch (Finite below_one_hi) = Inr (Finite (4996040553280467 / 2 ^ 52))
   \<and> calc_time_stretch_fp 999999999999999952 = Inr 1109343850842595965
   \<and> calc_time_stretch_fp 999999999999999953 = Inr 1109343850842595965"
proof -
  have o: "0 < below_one_lo \<and> below_one_lo < below_one_hi \<and> below_one_hi \<le> 1"
    by (simp add: below_one_lo_def below_one_hi_def)
  have f1: "calc_time_stretch_fp 999999999999999952 = Inr 1109343850842595965"
    using calc_time_stretch_fp_value(1) [of 999999999999999952] by simp
  have f2: "calc_time_stretch_fp 999999999999999953 = Inr 1109343850842595965"
    using calc_time_stretch_fp_value(1) [of 999999999999999953] by simp
  show ?thesis
    using is_double_below_one o calc_time_stretch_below_one_lo calc_time_stretch_below_one_hi f1 f2
    by simp
qed

subsection \<open>The extreme trades\<close>

text \<open>
  C7. \<open>get_max_long\<close> returns the pair \<open>(base, bonds)\<close>: \<open>base\<close> is the \<open>with_fee\<close>
  component of \<open>calc_in_given_out\<close> at an output of exactly
  \<open>bond_reserves - bond_buffer\<close> bonds, and \<open>bonds\<close> the \<open>with_fee\<close> component of
  \<open>calc_out_given_in\<close> at that base. \<open>get_max_short\<close> starts from
  \<open>share_reserves - base_buffer / share_price\<close> and sends the \<open>with_fee\<close> component of
  \<open>calc_in_given_out\<close> there through \<open>calc_out_given_in\<close>. Each is these two calls and
  nothing else, in the float and in the fixed-point variant: there is no search loop.
\<close>

theorem get_max_round_trip:
  "(calc_in_given_out
      \<lparr>amount = PyFloat (Finite (bond_reserves ms - bond_buffer ms)), unit = PT\<rparr> ms tr = Inr l_in
    \<and> calc_out_given_in \<lparr>amount = with_fee (breakdown l_in), unit = BASE\<rparr> ms tr = Inr l_out
    \<longrightarrow> get_max_long calc_in_given_out calc_out_given_in ms tr
          = Inr (with_fee (breakdown l_in), with_fee (breakdown l_out)))
   \<and> (share_price ms \<noteq> 0
    \<and> calc_in_given_out
        \<lparr>amount = PyFloat (Finite (share_reserves ms - base_buffer ms / share_price ms)),
         unit = PT\<rparr> ms tr = Inr s_in
    \<and> calc_out_given_in \<lparr>amount = with_fee (breakdown s_in), unit = PT\<rparr> ms tr = Inr s_out
    \<longrightarrow> get_max_short calc_in_given_out calc_out_given_in ms tr
          = Inr (with_fee (breakdown s_out), with_fee (breakdown s_in)))
   \<and> (calc_in_given_out_fp
        \<lparr>amount = PyFixedPoint (Finite (bond_reserves ms - bond_buffer ms)), unit = PT\<rparr> ms tr
        = Inr fl_in
    \<and> calc_out_given_in_fp \<lparr>amount = with_fee (breakdown fl_in), unit = BASE\<rparr> ms tr = Inr fl_out
    \<longrightarrow> get_max_long_fp calc_in_given_out_fp calc_out_given_in_fp ms tr
          = Inr (with_fee (breakdown fl_in), with_fee (breakdown fl_out)))
   \<and> (share_price ms \<noteq> 0
    \<and> calc_in_given_out_fp
        \<lparr>amount = PyFixedPoint (Finite (share_reserves ms - base_buffer ms / share_price ms)),
         unit = PT\<rparr> ms tr = Inr fs_in
    \<and> calc_out_given_in_fp \<lparr>amount = with_fee (breakdown fs_in), unit = PT\<rparr> ms tr = Inr fs_out
    \<longrightarrow> get_max_short_fp calc_in_given_out_fp calc_out_given_in_fp ms tr
          = Inr (with_fee (breakdown fs_out), with_fee (breakdown fs_in)))"
  by (simp add: get_max_long_def get_max_short_def get_max_long_fp_def get_max_short_fp_def)

theorem get_max_round_trip_witness:
  "share_price discounted_state \<noteq> 0
   \<and> get_max_long echo_trade echo_trade discounted_state one_year
       = Inr (PyFloat (Finite 1), PyFloat (Finite 1))
   \<and> get_max_short echo_trade echo_trade discounted_state one_year
       = Inr (PyFloat (Finite 1), PyFloat (Finite 1))
   \<and> get_max_long_fp echo_trade echo_trade discounted_state one_year
       = Inr (PyFixedPoint (Finite 1), PyFixedPoint (Finite 1))
   \<and> get_max_short_fp echo_trade echo_trade discounted_state one_year
       = Inr (PyFixedPoint (Finite 1), PyFixedPoint (Finite 1))"
proof -
  let ?ms = discounted_state and ?tr = one_year
  have nz: "share_price ?ms \<noteq> 0"
    by (simp add: discounted_state_def)
  have a: "echo_trade \<lparr>amount = PyFloat (Finite (bond_reserves ?ms - bond_buffer ?ms)), unit = PT\<rparr>
             ?ms ?tr = Inr (echo_result (PyFloat (Finite 1)))"
    by (simp add: echo_trade_def discounted_state_def)
  have b: "echo_trade \<lparr>amount = with_fee (breakdown (echo_result (PyFloat (Finite 1)))), unit = BASE\<rparr>
             ?ms ?tr = Inr (echo_result (PyFloat (Finite 1)))"
    by (simp add: echo_trade_def echo_result_def)
  have c: "echo_trade
             \<lparr>amount = PyFloat (Finite (share_reserves ?ms - base_buffer ?ms / share_price ?ms)),
              unit = PT\<rparr> ?ms ?tr = Inr (echo_result (PyFloat (Finite 1)))"
    by (simp add: echo_trade_def discounted_state_def)
  have d: "echo_trade \<lparr>amount = with_fee (breakdown (echo_result (PyFloat (Finite 1)))), unit = PT\<rparr>
             ?ms ?tr = Inr (echo_result (PyFloat (Finite 1)))"
    by (simp add: echo_trade_def echo_result_def)
  have a': "echo_trade
              \<lparr>amount = PyFixedPoint (Finite (bond_reserves ?ms - bond_buffer ?ms)), unit = PT\<rparr>
              ?ms ?tr = Inr (echo_result (PyFixedPoint (Finite 1)))"
    by (simp add: echo_trade_def discounted_state_def)
  have b': "echo_trade
              \<lparr>amount = with_fee (breakdown (echo_result (PyFixedPoint (Finite 1)))), unit = BASE\<rparr>
              ?ms ?tr = Inr (echo_result (PyFixedPoint (Finite 1)))"
    by (simp add: echo_trade_def echo_result_def)
  have c': "echo_trade
              \<lparr>amount = PyFixedPoint (Finite (share_reserves ?ms - base_buffer ?ms / share_price ?ms)),
               unit = PT\<rparr> ?ms ?tr = Inr (echo_result (PyFixedPoint (Finite 1)))"
    by (simp add: echo_trade_def discounted_state_def)
  have d': "echo_trade
              \<lparr>amount = with_fee (breakdown (echo_result (PyFixedPoint (Finite 1)))), unit = PT\<rparr>
              ?ms ?tr = Inr (echo_result (PyFixedPoint (Finite 1)))"
    by (simp add: echo_trade_def echo_result_def)
  let ?fl = "echo_result (PyFloat (Finite 1))" and ?fx = "echo_result (PyFixedPoint (Finite 1))"
  from get_max_round_trip
         [where calc_in_given_out = echo_trade and calc_out_given_in = echo_trade
            and calc_in_given_out_fp = echo_trade and calc_out_given_in_fp = echo_trade
            and ms = discounted_state and tr = one_year
            and l_in = ?fl and l_out = ?fl and s_in = ?fl and s_out = ?fl
            and fl_in = ?fx and fl_out = ?fx and fs_in = ?fx and fs_out = ?fx]
  have "get_max_long echo_trade echo_trade discounted_state one_year
          = Inr (with_fee (breakdown ?fl), with_fee (breakdown ?fl))
      \<and> get_max_short echo_trade echo_trade discounted_state one_year
          = Inr (with_fee (breakdown ?fl), with_fee (breakdown ?fl))
      \<and> get_max_long_fp echo_trade echo_trade discounted_state one_year
          = Inr (with_fee (breakdown ?fx), with_fee (breakdown ?fx))
      \<and> get_max_short_fp echo_trade echo_trade discounted_state one_year
          = Inr (with_fee (breakdown ?fx), with_fee (breakdown ?fx))"
    using a b nz c d a' b' c' d' by blast
  with nz show ?thesis by (simp add: echo_result_def)
qed

subsection \<open>Assertions\<close>

lemma number_ge_zero_iff: "number_ge n 0 = (n = PosInf \<or> (\<exists>x. n = Finite x \<and> 0 \<le> x))"
  by (cases n) auto

text \<open>
  C9, as the code has it. \<open>check_output_assertions\<close> succeeds exactly on the trade
  results whose \<open>fee\<close> and \<open>without_fee\<close> are both of the variant's numeric type and
  both non-negative, where positive infinity counts as non-negative: it fails, with an
  \<open>AssertionError\<close>, when either is negative, minus infinity or not-a-number, and it makes
  no finiteness check. The same holds of the fixed-point variant.
\<close>

theorem check_output_assertions_accepts:
  "(check_output_assertions t = Inr ()) =
     (\<exists>f w. fee (breakdown t) = PyFloat f \<and> without_fee (breakdown t) = PyFloat w
        \<and> (f = PosInf \<or> (\<exists>x. f = Finite x \<and> 0 \<le> x))
        \<and> (w = PosInf \<or> (\<exists>x. w = Finite x \<and> 0 \<le> x)))
   \<and> (check_output_assertions t = Inr ()
        \<or> (\<exists>m. check_output_assertions t = Inl (AssertionError m)))
   \<and> (check_output_assertions_fp t = Inr ()) =
     (\<exists>f w. fee (breakdown t) = PyFixedPoint f \<and> without_fee (breakdown t) = PyFixedPoint w
        \<and> (f = PosInf \<or> (\<exists>x. f = Finite x \<and> 0 \<le> x))
        \<and> (w = PosInf \<or> (\<exists>x. w = Finite x \<and> 0 \<le> x)))
   \<and> (check_output_assertions_fp t = Inr ()
        \<or> (\<exists>m. check_output_assertions_fp t = Inl (AssertionError m)))"
proof (intro conjI)
  show "(check_output_assertions t = Inr ()) =
     (\<exists>f w. fee (breakdown t) = PyFloat f \<and> without_fee (breakdown t) = PyFloat w
        \<and> (f = PosInf \<or> (\<exists>x. f = Finite x \<and> 0 \<le> x))
        \<and> (w = PosInf \<or> (\<exists>x. w = Finite x \<and> 0 \<le> x)))"
    by (cases "fee (breakdown t)"; cases "without_fee (breakdown t)")
       (simp_all add: check_output_assertions_def number_ge_zero_iff)
  show "(check_output_assertions_fp t = Inr ()) =
     (\<exists>f w. fee (breakdown t) = PyFixedPoint f \<and> without_fee (breakdown t) = PyFixedPoint w
        \<and> (f = PosInf \<or> (\<exists>x. f = Finite x \<and> 0 \<le> x))
        \<and> (w = PosInf \<or> (\<exists>x. w = Finite x \<and> 0 \<le> x)))"
    by (cases "fee (breakdown t)"; cases "without_fee (breakdown t)")
       (simp_all add: check_output_assertions_fp_def number_ge_zero_iff)
  show "check_output_assertions t = Inr ()
          \<or> (\<exists>m. check_output_assertions t = Inl (AssertionError m))"
    by (simp add: check_output_assertions_def)
  show "check_output_assertions_fp t = Inr ()
          \<or> (\<exists>m. check_output_assertions_fp t = Inl (AssertionError m))"
    by (simp add: check_output_assertions_fp_def)
qed

text \<open>
  A trade result with an infinite fee passes \<open>check_output_assertions\<close>: the fee is not
  finite, and no assertion fires.
\<close>

theorem check_output_assertions_infinite_fee:
  "\<not> isfinite (number_of (fee (breakdown infinite_fee_result)))
   \<and> check_output_assertions infinite_fee_result = Inr ()"
  by (simp add: infinite_fee_result_def check_output_assertions_def)

text \<open>
  C10. \<open>check_input_assertions\<close> never fails merely because \<open>share_price\<close> is below
  \<open>init_share_price\<close>: on every input that satisfies the asserted preconditions the call
  returns normally, and a share price below the initial share price only adds the
  warning to the log. The same holds of the fixed-point variant.
\<close>

theorem check_input_assertions_share_price:
  assumes "number_ge (number_of (amount quantity)) (WEI k)"
    and "0 \<le> share_reserves market_state" and "0 \<le> bond_reserves market_state"
    and "1 \<le> init_share_price market_state"
    and "\<bar>share_reserves market_state * share_price market_state - bond_reserves market_state\<bar>
           < MAX_RESERVES_DIFFERENCE k"
    and "0 \<le> curve_fee_multiple market_state" and "curve_fee_multiple market_state \<le> 1"
    and "0 \<le> flat_fee_multiple market_state" and "flat_fee_multiple market_state \<le> 1"
    and "- PRECISION_THRESHOLD k \<le> stretched_time time_remaining"
    and "stretched_time time_remaining \<le> 1 + PRECISION_THRESHOLD k"
    and "- PRECISION_THRESHOLD k \<le> normalized_time time_remaining"
    and "normalized_time time_remaining \<le> 1 + PRECISION_THRESHOLD k"
  shows "check_input_assertions k quantity market_state time_remaining =
           (if share_price market_state < init_share_price market_state
            then [share_price_warning] else [], Inr ())
       \<and> check_input_assertions_fp k quantity market_state time_remaining =
           (if share_price market_state < init_share_price market_state
            then [share_price_warning] else [], Inr ())"
  using assms by (simp add: check_input_assertions_def check_input_assertions_fp_def Let_def)

theorem check_input_assertions_share_price_witness:
  "share_price discounted_state < init_share_price discounted_state
   \<and> number_ge (number_of (amount one_base)) (WEI elfpy_defaults)
   \<and> 1 \<le> init_share_price discounted_state
   \<and> check_input_assertions elfpy_defaults one_base discounted_state one_year
       = ([share_price_warning], Inr ())
   \<and> check_input_assertions_fp elfpy_defaults one_base discounted_state one_year
       = ([share_price_warning], Inr ())"
  using check_input_assertions_share_price [of one_base elfpy_defaults discounted_state one_year]
  by (simp add: elfpy_defaults_def discounted_state_def one_year_def one_base_def
      stretched_time_def normalized_time_def norm_days_def)

subsection \<open>Updating the market\<close>

lemma check_market_updates_fails:
  assumes "(key, v) \<in> set market_deltas" and "truthy v" and "\<not> isfinite (value_to_check v)"
  shows "\<exists>m. check_market_updates market_deltas = Inl (AssertionError m)"
  using assms by (induction market_deltas) auto

text \<open>
  C1, as the code has it. When the float \<open>update_market\<close> fails at the finiteness check
  of the delta, the market state the caller sees is the state before the call. Once the
  delta has passed that check, the caller sees the state \<open>apply_delta\<close> left behind,
  whether or not the call then fails: a failure of \<open>check_non_zero\<close> comes after the
  mutation and nothing undoes it.
\<close>

theorem update_market_state_after:
  "(check_market_updates market_deltas = Inl e \<longrightarrow>
      update_market apply_delta check_non_zero market_deltas market_state = (Some e, market_state))
   \<and> (check_market_updates market_deltas = Inr () \<longrightarrow>
      snd (update_market apply_delta check_non_zero market_deltas market_state)
        = snd (apply_delta market_deltas market_state))
   \<and> (check_market_updates market_deltas = Inr ()
        \<and> apply_delta market_deltas market_state = (None, s') \<and> check_non_zero s' = Inl e' \<longrightarrow>
      update_market apply_delta check_non_zero market_deltas market_state = (Some e', s'))"
  by (auto simp: update_market_def split: sum.splits prod.splits option.splits)

theorem update_market_state_after_witness:
  "check_market_updates infinite_bonds
     = Inl (AssertionError ''ERROR: market delta key d_bond_asset is not finite.'')
   \<and> update_market add_increments reserves_non_negative infinite_bonds unit_reserves
     = (Some (AssertionError ''ERROR: market delta key d_bond_asset is not finite.''), unit_reserves)
   \<and> check_market_updates overdraw_bonds = Inr ()
   \<and> update_market add_increments reserves_non_negative overdraw_bonds unit_reserves
     = (Some (AssertionError ''a reserve is negative''),
        \<lparr>reserve_shares = Finite 1, reserve_bonds = Finite (- 1)\<rparr>)"
proof -
  have a: "check_market_updates infinite_bonds
             = Inl (AssertionError ''ERROR: market delta key d_bond_asset is not finite.'')"
    by (simp add: infinite_bonds_def)
  have b: "check_market_updates overdraw_bonds = Inr ()"
    by (simp add: overdraw_bonds_def)
  have c: "add_increments overdraw_bonds unit_reserves
             = (None, \<lparr>reserve_shares = Finite 1, reserve_bonds = Finite (- 1)\<rparr>)"
    by (simp add: add_increments_def overdraw_bonds_def unit_reserves_def)
  have d: "reserves_non_negative \<lparr>reserve_shares = Finite 1, reserve_bonds = Finite (- 1)\<rparr>
             = Inl (AssertionError ''a reserve is negative'')"
    by (simp add: reserves_non_negative_def)
  from update_market_state_after
         [where market_deltas = infinite_bonds and apply_delta = add_increments
            and check_non_zero = reserves_non_negative and market_state = unit_reserves
            and e = "AssertionError ''ERROR: market delta key d_bond_asset is not finite.''"]
       update_market_state_after
         [where market_deltas = overdraw_bonds and apply_delta = add_increments
            and check_non_zero = reserves_non_negative and market_state = unit_reserves
            and s' = "\<lparr>reserve_shares = Finite 1, reserve_bonds = Finite (- 1)\<rparr>"
            and e' = "AssertionError ''a reserve is negative''"]
       a b c d
  show ?thesis by simp
qed

text \<open>
  A failed \<open>update_market\<close> that leaves the market state changed: the delta is finite,
  it takes the bond reserves below zero, and \<open>check_non_zero\<close> then fails on the state
  that already carries the delta.
\<close>

theorem update_market_failure_mutates:
  "fst (update_market add_increments reserves_non_negative overdraw_bonds unit_reserves)
     = Some (AssertionError ''a reserve is negative'')
   \<and> snd (update_market add_increments reserves_non_negative overdraw_bonds unit_reserves)
     \<noteq> unit_reserves"
  by (simp add: update_market_def add_increments_def reserves_non_negative_def
      overdraw_bonds_def unit_reserves_def)

text \<open>
  C3. The float \<open>update_market\<close> first asserts that every field of the delta that is
  set and non-empty is finite, the fixed-point one applies the delta unchecked. So on a
  delta with a non-finite field the float variant fails and leaves the market state as
  it was, without calling \<open>apply_delta\<close>; the fixed-point variant leaves the state
  \<open>apply_delta\<close> produced, and succeeds when \<open>apply_delta\<close> and the check after it do.
  The two variants differ on such a delta.
\<close>

theorem update_market_precheck_asymmetry:
  assumes "(key, v) \<in> set market_deltas" and "truthy v" and "\<not> isfinite (value_to_check v)"
    and "apply_delta market_deltas market_state = (None, s')"
    and "check_non_zero_fp s' = Inr ()"
  shows "(\<exists>m. update_market apply_delta check_non_zero market_deltas market_state
                = (Some (AssertionError m), market_state))
       \<and> update_market_fp apply_delta check_non_zero_fp market_deltas market_state = (None, s')
       \<and> update_market apply_delta check_non_zero_fp market_deltas market_state
           \<noteq> update_market_fp apply_delta check_non_zero_fp market_deltas market_state"
proof -
  from check_market_updates_fails [OF assms(1-3)]
  obtain m where m: "check_market_updates market_deltas = Inl (AssertionError m)" by blast
  have fl: "\<And>c. update_market apply_delta c market_deltas market_state
              = (Some (AssertionError m), market_state)"
    by (simp add: update_market_def m)
  have fp: "update_market_fp apply_delta check_non_zero_fp market_deltas market_state = (None, s')"
    by (simp add: update_market_fp_def assms(4,5))
  show ?thesis using fl fp by simp
qed

theorem update_market_precheck_asymmetry_witness:
  "(''d_bond_asset'', DeltaNumber PosInf) \<in> set infinite_bonds
   \<and> \<not> isfinite (value_to_check (DeltaNumber PosInf))
   \<and> (\<exists>m. update_market add_increments reserves_non_negative infinite_bonds unit_reserves
            = (Some (AssertionError m), unit_reserves))
   \<and> update_market_fp add_increments reserves_non_negative infinite_bonds unit_reserves
       = (None, \<lparr>reserve_shares = Finite 1, reserve_bonds = PosInf\<rparr>)"
proof -
  have a: "(''d_bond_asset'', DeltaNumber PosInf) \<in> set infinite_bonds"
    by (simp add: infinite_bonds_def)
  have b: "truthy (DeltaNumber PosInf)" by simp
  have c: "\<not> isfinite (value_to_check (DeltaNumber PosInf))" by simp
  have d: "add_increments infinite_bonds unit_reserves
             = (None, \<lparr>reserve_shares = Finite 1, reserve_bonds = PosInf\<rparr>)"
    by (simp add: add_increments_def infinite_bonds_def unit_reserves_def)
  have e: "reserves_non_negative \<lparr>reserve_shares = Finite 1, reserve_bonds = PosInf\<rparr> = Inr ()"
    by (simp add: reserves_non_negative_def)
  from update_market_precheck_asymmetry
         [where apply_delta = add_increments and check_non_zero_fp = reserves_non_negative
            and check_non_zero = reserves_non_negative, OF a b c d e] a c
  show ?thesis by simp
qed

subsection \<open>Spot price\<close>

text \<open>
  C2 on the code. With \<open>bond_reserves + lp_total_supply = 0\<close> the fixed-point
  \<open>calc_spot_price_from_reserves\<close> returns the not-a-number sentinel. The float one has
  no such guard: its \<open>Decimal\<close> division fails, with \<open>DivisionByZero\<close> when the
  numerator is non-zero and with \<open>InvalidOperation\<close> when it is zero too, and that
  error is what the caller of \<open>calc_spot_price_from_reserves\<close> gets.
\<close>

theorem spot_price_zero_divisor:
  assumes "bond_reserves ms + lp_total_supply ms = 0"
  shows "calc_spot_price_from_reserves_fp fixedpoint_pow ms tr = Inr NotANumber
       \<and> calc_spot_price_from_reserves_high_precision ms tr
           = Inl (if init_share_price ms * share_reserves ms = 0
                  then DecimalInvalidOperation else DecimalDivisionByZero)
       \<and> calc_spot_price_from_reserves to_float ms tr
           = Inl (if init_share_price ms * share_reserves ms = 0
                  then DecimalInvalidOperation else DecimalDivisionByZero)"
  using assms
  by (simp add: calc_spot_price_from_reserves_fp_def calc_spot_price_from_reserves_def
      calc_spot_price_from_reserves_high_precision_def decimal_div_def)

theorem spot_price_zero_divisor_witness:
  "bond_reserves no_bonds_no_supply + lp_total_supply no_bonds_no_supply = 0
   \<and> calc_spot_price_from_reserves_fp exact_pow no_bonds_no_supply one_year = Inr NotANumber
   \<and> calc_spot_price_from_reserves_high_precision no_bonds_no_supply one_year
       = Inl DecimalDivisionByZero
   \<and> calc_spot_price_from_reserves (\<lambda>n. n) no_bonds_no_supply one_year
       = Inl DecimalDivisionByZero"
  using spot_price_zero_divisor [of no_bonds_no_supply exact_pow one_year "\<lambda>n. n"]
  by (simp add: no_bonds_no_supply_def unit_state_def)

lemma decimal_pow_positive: "0 < x \<Longrightarrow> decimal_pow x y = Inr (Finite (x powr y))"
  by (simp add: decimal_pow_def)

lemma decimal_pow_zero: "0 < y \<Longrightarrow> decimal_pow 0 y = Inr (Finite (0 powr y))"
  by (simp add: decimal_pow_def)

lemma high_precision_value:
  assumes "0 < bond_reserves ms + lp_total_supply ms"
    and "0 < init_share_price ms * share_reserves ms
         \<or> (init_share_price ms * share_reserves ms = 0 \<and> 0 < stretched_time tr)"
  shows "calc_spot_price_from_reserves_high_precision ms tr
           = Inr (Finite (((init_share_price ms * share_reserves ms)
                             / (bond_reserves ms + lp_total_supply ms)) powr stretched_time tr))"
proof -
  let ?n = "init_share_price ms * share_reserves ms"
  let ?d = "bond_reserves ms + lp_total_supply ms"
  have d: "decimal_div ?n ?d = Inr (?n / ?d)"
    using assms(1) by (simp add: decimal_div_def)
  have p: "decimal_pow (?n / ?d) (stretched_time tr) = Inr (Finite ((?n / ?d) powr stretched_time tr))"
  proof (cases "0 < ?n")
    case True
    then have "0 < ?n / ?d" using assms(1) by (rule divide_pos_pos)
    then show ?thesis by (rule decimal_pow_positive)
  next
    case False
    then have z: "?n = 0" and t: "0 < stretched_time tr"
      using assms(2) by auto
    have "?n / ?d = 0" by (simp only: z div_0)
    then show ?thesis using decimal_pow_zero [OF t] by (simp only:)
  qed
  show ?thesis
    unfolding calc_spot_price_from_reserves_high_precision_def Let_def
    by (simp only: d p sum.case)
qed

text \<open>
  C8, as the code has it. For a market state with \<open>bond_reserves + lp_total_supply > 0\<close>
  whose \<open>init_share_price * share_reserves\<close> is positive, or is zero while the stretched
  time is positive, the high-precision spot price is
  \<open>((init_share_price * share_reserves) / (bond_reserves + lp_total_supply))\<close> to the
  power \<open>stretched_time\<close>, and the float spot price is the narrowing of that
  high-precision value. The fixed-point spot price is the same quotient under the
  fixed-point power.
\<close>

theorem spot_price_formula:
  assumes "0 < bond_reserves ms + lp_total_supply ms"
    and "0 < init_share_price ms * share_reserves ms
         \<or> (init_share_price ms * share_reserves ms = 0 \<and> 0 < stretched_time tr)"
  shows "calc_spot_price_from_reserves_high_precision ms tr
           = Inr (Finite (((init_share_price ms * share_reserves ms)
                             / (bond_reserves ms + lp_total_supply ms)) powr stretched_time tr))
       \<and> calc_spot_price_from_reserves to_float ms tr
           = Inr (to_float (Finite (((init_share_price ms * share_reserves ms)
                             / (bond_reserves ms + lp_total_supply ms)) powr stretched_time tr)))
       \<and> calc_spot_price_from_reserves_fp fixedpoint_pow ms tr
           = fixedpoint_pow ((init_share_price ms * share_reserves ms)
                               / (bond_reserves ms + lp_total_supply ms)) (stretched_time tr)"
proof -
  have fp: "calc_spot_price_from_reserves_fp fixedpoint_pow ms tr
              = fixedpoint_pow ((init_share_price ms * share_reserves ms)
                                  / (bond_reserves ms + lp_total_supply ms)) (stretched_time tr)"
    using assms(1) by (simp add: calc_spot_price_from_reserves_fp_def)
  show ?thesis
    using high_precision_value [OF assms] fp by (simp add: calc_spot_price_from_reserves_def)
qed

theorem spot_price_formula_witness:
  "0 < bond_reserves unit_state + lp_total_supply unit_state
   \<and> 0 < init_share_price unit_state * share_reserves unit_state
   \<and> calc_spot_price_from_reserves_high_precision unit_state one_year = Inr (Finite (1 / 2))
   \<and> calc_spot_price_from_reserves (\<lambda>n. n) unit_state one_year = Inr (Finite (1 / 2))
   \<and> calc_spot_price_from_reserves_fp exact_pow unit_state one_year = Inr (Finite (1 / 2))"
  using spot_price_formula [of unit_state one_year "\<lambda>n. n" exact_pow]
  by (simp add: unit_state_def one_year_def exact_pow_def
      stretched_time_def normalized_time_def norm_days_def)

text \<open>
  A pool with bonds but no shares, priced at maturity: \<open>bond_reserves + lp_total_supply\<close>
  is positive, and the float spot price is no value at all, since \<open>Decimal\<close> refuses
  zero to the power zero.
\<close>

theorem spot_price_zero_to_zero:
  "0 < bond_reserves no_shares + lp_total_supply no_shares
   \<and> calc_spot_price_from_reserves (\<lambda>n. n) no_shares at_maturity = Inl DecimalInvalidOperation"
  by (simp add: no_shares_def unit_state_def at_maturity_def calc_spot_price_from_reserves_def
      calc_spot_price_from_reserves_high_precision_def decimal_div_def decimal_pow_def
      stretched_time_def normalized_time_def norm_days_def)

subsection \<open>The bond reserves that realise an APR\<close>

lemma interest_factor_inverts:
  fixes b tau :: real
  assumes "0 < b" and "tau \<noteq> 0"
  shows "(1 / (b powr (1 / tau))) powr tau = 1 / b"
proof -
  have "1 / (b powr (1 / tau)) = b powr (- (1 / tau))"
    by (simp add: powr_minus divide_inverse)
  then have "(1 / (b powr (1 / tau))) powr tau = b powr (- (1 / tau) * tau)"
    by (simp add: powr_powr)
  also have "\<dots> = b powr (- 1)" using assms(2) by simp
  also have "\<dots> = 1 / b" using assms(1) by (simp add: powr_minus divide_inverse)
  finally show ?thesis .
qed

text \<open>
  C5. In exact arithmetic, take a market state with \<open>share_reserves > 0\<close> and
  \<open>init_share_price \<ge> 1\<close>, a time remaining with \<open>stretched_time > 0\<close>, normalizing
  constant 365 and normalized time inside the tolerance band (above \<open>-1\<close>), and a target
  APR in the supported range \<open>0 \<le> target_apr \<le> 1\<close>. Then \<open>calc_bond_reserves\<close> returns
  a value, and with that value as the state's bond reserves \<open>calc_apr_from_reserves\<close>
  returns exactly the target APR.
\<close>

theorem calc_bond_reserves_realizes_apr:
  assumes "0 < share_reserves ms" and "1 \<le> init_share_price ms"
    and "0 < stretched_time tr" and "normalizing_constant tr = 365"
    and "- 1 < normalized_time tr"
    and "0 \<le> target_apr" and "target_apr \<le> 1"
  shows "\<exists>y. calc_bond_reserves target_apr tr ms = Inr y
           \<and> calc_apr_from_reserves (\<lambda>n. n) (ms\<lparr>bond_reserves := y\<rparr>) tr = Inr (Finite target_apr)"
proof -
  let ?t = "normalized_time tr" and ?tau = "stretched_time tr"
  let ?b = "1 + target_apr * ?t"
  let ?mz = "init_share_price ms * share_reserves ms"
  let ?f = "?b powr (1 / ?tau)"
  let ?y = "?mz * ?f - lp_total_supply ms"
  have ann: "norm_days (days tr) 365 = ?t"
    using assms(4) by (simp add: normalized_time_def)
  have tau: "?tau \<noteq> 0" using assms(3) by simp
  have t0: "?t \<noteq> 0"
  proof
    assume "?t = 0"
    then have "?tau = 0" by (simp add: stretched_time_def)
    with tau show False by simp
  qed
  have "- 1 < target_apr * ?t"
  proof (cases "0 \<le> ?t")
    case True
    then have "0 \<le> target_apr * ?t" using assms(6) by simp
    then show ?thesis by simp
  next
    case False
    then have neg: "?t < 0" by simp
    have "target_apr * ?t \<ge> 1 * ?t"
      using assms(7) neg by (intro mult_right_mono_neg) auto
    then show ?thesis using assms(5) by simp
  qed
  then have b: "0 < ?b" by simp
  have mz: "0 < ?mz" using assms(1,2) by (intro mult_pos_pos) auto
  have f: "0 < ?f" using b by simp
  have cbr: "calc_bond_reserves target_apr tr ms = Inr ?y"
    using tau b by (simp add: calc_bond_reserves_def ann float_pow_def)
  let ?ms = "ms\<lparr>bond_reserves := ?y\<rparr>"
  have sum: "bond_reserves ?ms + lp_total_supply ?ms = ?mz * ?f" by simp
  have num: "init_share_price ?ms * share_reserves ?ms = ?mz" by simp
  have pos: "0 < bond_reserves ?ms + lp_total_supply ?ms"
    unfolding sum using mz f by (rule mult_pos_pos)
  have mz': "0 < init_share_price ?ms * share_reserves ?ms
               \<or> (init_share_price ?ms * share_reserves ?ms = 0 \<and> 0 < stretched_time tr)"
    unfolding num using mz by (rule disjI1)
  have mznz: "?mz \<noteq> 0" using mz by (rule less_imp_neq [symmetric])
  have q: "?mz / (?mz * ?f) = 1 / ?f"
    using mznz by (rule nonzero_divide_mult_cancel_left)
  have "calc_spot_price_from_reserves_high_precision ?ms tr
          = Inr (Finite ((?mz / (?mz * ?f)) powr ?tau))"
    using high_precision_value [OF pos mz'] unfolding sum num .
  then have "calc_spot_price_from_reserves_high_precision ?ms tr
          = Inr (Finite ((1 / ?f) powr ?tau))"
    unfolding q .
  also have "(1 / ?f) powr ?tau = 1 / ?b"
    by (rule interest_factor_inverts [OF b tau])
  finally have hp: "calc_spot_price_from_reserves_high_precision ?ms tr = Inr (Finite (1 / ?b))" .
  have "(1 / (1 / ?b) - 1) / ?t = target_apr"
    using t0 by simp
  then have "calc_apr_from_reserves (\<lambda>n. n) ?ms tr = Inr (Finite target_apr)"
    using hp b t0
    by (simp add: calc_apr_from_reserves_def calc_spot_price_from_reserves_def
        calc_apr_from_spot_price_def)
  with cbr show ?thesis by blast
qed

theorem calc_bond_reserves_realizes_apr_witness:
  "0 < share_reserves unit_state \<and> 1 \<le> init_share_price unit_state
   \<and> 0 < stretched_time one_year \<and> normalizing_constant one_year = 365
   \<and> (\<exists>y. calc_bond_reserves (1 / 20) one_year unit_state = Inr y
         \<and> calc_apr_from_reserves (\<lambda>n. n) (unit_state\<lparr>bond_reserves := y\<rparr>) one_year
             = Inr (Finite (1 / 20)))"
  using calc_bond_reserves_realizes_apr [of unit_state one_year "1 / 20"]
  by (simp add: unit_state_def one_year_def stretched_time_def normalized_time_def norm_days_def)

subsection \<open>Checkpoints\<close>

lemma float_mod_zero_iff: "(float_mod t d = 0) = (\<exists>k::int. t = of_int k * d)"
proof
  assume "float_mod t d = 0"
  then have "t = of_int \<lfloor>t / d\<rfloor> * d" by (simp add: float_mod_def mult.commute)
  then show "\<exists>k::int. t = of_int k * d" ..
next
  assume "\<exists>k::int. t = of_int k * d"
  then obtain k :: int where k: "t = of_int k * d" ..
  show "float_mod t d = 0"
  proof (cases "d = 0")
    case True
    with k show ?thesis by (simp add: float_mod_def)
  next
    case False
    with k have "t / d = of_int k" by simp
    then have "\<lfloor>t / d\<rfloor> = k" by simp
    with k show ?thesis by (simp add: float_mod_def)
  qed
qed

lemma checkpoint_recorded:
  assumes "checkpoint settle t m = Inr m'"
  shows "checkpoints m' t \<noteq> None" and "block_time m' = block_time m"
    and "checkpoint_duration m' = checkpoint_duration m"
  using assms by (auto simp: checkpoint_def split: if_splits)

text \<open>
  C4. \<open>checkpoint\<close> for a time \<open>t\<close> succeeds exactly when \<open>t\<close> is at most the current
  time and an exact multiple of \<open>checkpoint_duration\<close>, and fails with the
  invalid-timestamp error otherwise. It is idempotent: on a bucket that already holds a
  checkpoint the call changes nothing, so a second \<open>checkpoint(t)\<close> returns the state
  the first one produced.
\<close>

theorem checkpoint_idempotent:
  "((\<exists>m'. checkpoint settle t m = Inr m')
      = (t \<le> block_time m \<and> (\<exists>k::int. t = of_int k * checkpoint_duration m)))
   \<and> ((\<exists>m'. checkpoint settle t m = Inr m') \<or> checkpoint settle t m = Inl InvalidCheckpointTime)
   \<and> (checkpoints m t \<noteq> None \<and> (\<exists>m'. checkpoint settle t m = Inr m')
        \<longrightarrow> checkpoint settle t m = Inr m)
   \<and> (checkpoint settle t m = Inr m1 \<longrightarrow> checkpoint settle t m1 = Inr m1)"
proof (intro conjI impI)
  show "(\<exists>m'. checkpoint settle t m = Inr m')
          = (t \<le> block_time m \<and> (\<exists>k::int. t = of_int k * checkpoint_duration m))"
    unfolding float_mod_zero_iff [symmetric]
    by (auto simp: checkpoint_def)
  show "(\<exists>m'. checkpoint settle t m = Inr m') \<or> checkpoint settle t m = Inl InvalidCheckpointTime"
    by (auto simp: checkpoint_def)
  show "checkpoint settle t m = Inr m"
    if "checkpoints m t \<noteq> None \<and> (\<exists>m'. checkpoint settle t m = Inr m')"
    using that by (auto simp: checkpoint_def split: if_splits)
  show "checkpoint settle t m1 = Inr m1" if h: "checkpoint settle t m = Inr m1"
  proof -
    have ok: "\<not> (block_time m < t \<or> float_mod t (checkpoint_duration m) \<noteq> 0)"
      using h by (auto simp: checkpoint_def split: if_splits)
    from checkpoint_recorded [OF h] ok show ?thesis
      by (simp add: checkpoint_def)
  qed
qed

theorem checkpoint_idempotent_witness:
  "checkpoints fresh_market 1 = None
   \<and> checkpoint count_settlement 1 fresh_market
       = Inr (fresh_market\<lparr>checkpoints := [1 \<mapsto> \<lparr>checkpoint_share_price = 3 / 2\<rparr>], ledger := 1\<rparr>)
   \<and> checkpoint count_settlement 1
        (fresh_market\<lparr>checkpoints := [1 \<mapsto> \<lparr>checkpoint_share_price = 3 / 2\<rparr>], ledger := 1\<rparr>)
       = Inr (fresh_market\<lparr>checkpoints := [1 \<mapsto> \<lparr>checkpoint_share_price = 3 / 2\<rparr>], ledger := 1\<rparr>)
   \<and> checkpoint count_settlement 3 fresh_market = Inl InvalidCheckpointTime
   \<and> checkpoint count_settlement (11 / 10) fresh_market = Inl InvalidCheckpointTime"
proof -
  let ?m1 = "fresh_market\<lparr>checkpoints := [1 \<mapsto> \<lparr>checkpoint_share_price = 3 / 2\<rparr>], ledger := 1\<rparr>"
  have a: "checkpoint count_settlement 1 fresh_market = Inr ?m1"
    by (simp add: checkpoint_def fresh_market_def count_settlement_def float_mod_def)
  have b: "checkpoint count_settlement 3 fresh_market = Inl InvalidCheckpointTime"
    by (simp add: checkpoint_def fresh_market_def)
  have "\<lfloor>(11::real) / 10\<rfloor> = 1" by linarith
  then have c: "checkpoint count_settlement (11 / 10) fresh_market = Inl InvalidCheckpointTime"
    by (simp add: checkpoint_def fresh_market_def float_mod_def)
  have d: "checkpoints fresh_market 1 = None"
    by (simp add: fresh_market_def)
  from checkpoint_idempotent [of count_settlement 1 fresh_market ?m1] a b c d
  show ?thesis by simp
qed

end
